theory Spec2Isabelle
  imports Complex_Main
begin

section \<open>Quadratic interpolation (theory/quadratic\_interpolation.ipynb)\<close>

text \<open>
  The notebook works on Python floats; they are modelled as real numbers, so rounding,
  overflow and the special values inf and nan are outside the model. The two operations
  of the notebook that can raise are made explicit: float division raises
  ZeroDivisionError on a zero divisor, and \<open>math.sqrt\<close> raises ValueError on a
  negative argument.
\<close>

datatype py_error = ZeroDivisionError | ValueError

definition py_div :: "real \<Rightarrow> real \<Rightarrow> py_error + real" where
  "py_div a b = (if b = 0 then Inl ZeroDivisionError else Inr (a / b))"

definition math_sqrt :: "real \<Rightarrow> py_error + real" where
  "math_sqrt u = (if u < 0 then Inl ValueError else Inr (sqrt u))"

record Parabola =
  Q :: real
  R :: real
  S :: real

text \<open>\<open>Parabola.__init__(self, f, ta, tb)\<close>: the only division is by the literal 2.\<close>

definition Parabola_init :: "(real \<Rightarrow> real) \<Rightarrow> real \<Rightarrow> real \<Rightarrow> Parabola" where
  "Parabola_init f ta tb =
     (let tm = (tb + ta) / 2;
          fa = f ta;
          fb = f tb;
          fm = f tm
      in \<lparr>Q = (fb + fa) / 2 - fm, R = (fb - fa) / 2, S = fm\<rparr>)"

definition Eval :: "Parabola \<Rightarrow> real \<Rightarrow> real" where
  "Eval p x = Q p * x * x + R p * x + S p"

definition Slope :: "Parabola \<Rightarrow> real \<Rightarrow> real" where
  "Slope p x = 2 * Q p * x + R p"

text \<open>The chained comparison \<open>-1 <= x <= +1\<close> of \<open>Solve\<close>.\<close>

definition in_unit_range :: "real \<Rightarrow> bool" where
  "in_unit_range x = (-1 \<le> x \<and> x \<le> 1)"

text \<open>
  \<open>Solve(p)\<close>: \<open>Inl\<close> is a raised exception, \<open>Inr None\<close> is the returned
  \<open>None\<close>, \<open>Inr (Some x)\<close> the returned root. The branches are in the order of the
  source.
\<close>

definition Solve :: "Parabola \<Rightarrow> py_error + real option" where
  "Solve p =
     (if Q p = 0 then
        (if R p = 0 then Inr None
         else case py_div (- S p) (R p) of
                Inl e \<Rightarrow> Inl e
              | Inr x \<Rightarrow> if in_unit_range x then Inr (Some x) else Inr None)
      else
        (let u = R p * R p - 4 * Q p * S p in
         if u \<le> 0 then Inr None
         else case math_sqrt u of
                Inl e \<Rightarrow> Inl e
              | Inr ru \<Rightarrow>
                 (case py_div (- R p + ru) (2 * Q p) of
                    Inl e \<Rightarrow> Inl e
                  | Inr x1 \<Rightarrow>
                     (case py_div (- R p - ru) (2 * Q p) of
                        Inl e \<Rightarrow> Inl e
                      | Inr x2 \<Rightarrow>
                         if in_unit_range x1 then
                           (if in_unit_range x2 then Inr None else Inr (Some x1))
                         else if in_unit_range x2 then Inr (Some x2)
                         else Inr None))))"

text \<open>
  The parameter of the notebook's text, \<open>x = (t - tm) / (tb - tm)\<close> with
  \<open>tm = (tb + ta) / 2\<close>, and the conversion back of its last code cells,
  \<open>t = tm + x*(tb-tm)\<close>.
\<close>

definition x_of_t :: "real \<Rightarrow> real \<Rightarrow> real \<Rightarrow> real" where
  "x_of_t ta tb t = (let tm = (tb + ta) / 2 in (t - tm) / (tb - tm))"

definition t_of_x :: "real \<Rightarrow> real \<Rightarrow> real \<Rightarrow> real" where
  "t_of_x ta tb x = (let tm = (ta + tb) / 2 in tm + x * (tb - tm))"

text \<open>
  The notions the specification uses to describe \<open>Solve\<close>: the discriminant and the
  two roots of the quadratic formula.
\<close>

definition discriminant :: "Parabola \<Rightarrow> real" where
  "discriminant p = R p * R p - 4 * Q p * S p"

definition root_plus :: "Parabola \<Rightarrow> real" where
  "root_plus p = (- R p + sqrt (discriminant p)) / (2 * Q p)"

definition root_minus :: "Parabola \<Rightarrow> real" where
  "root_minus p = (- R p - sqrt (discriminant p)) / (2 * Q p)"







definition two_crossings :: "real \<Rightarrow> real" where
  "two_crossings t = - (7 / 2) * ((1 - t) * (1 - t)) * ((t + 1 / 2) * (t + 4 / 7))"

definition no_crossing :: "real \<Rightarrow> real" where
  "no_crossing t = - ((1 - t) * (1 - t)) * (1 + t / 4)"

section \<open>The time model\<close>

text \<open>
  \<open>astro_time_t\<close> as ctest.c reads it: the fields \<open>ut\<close> and \<open>tt\<close>, both in
  days since noon of 2000-01-01.
\<close>

record Time =
  ut :: real
  tt :: real

text \<open>
  The functions \<open>Astronomy_MakeTime\<close> and \<open>Astronomy_AddDays\<close> are declared in
  astronomy.h and defined in astronomy.c, neither of which is among the sources; ctest.c
  only calls them. They are modelled from section 4.1 of the spec. The Delta-T table is
  not available either: it is the parameter \<open>dt\<close>, seconds as a function of \<open>ut\<close>.
\<close>

text \<open>
  Modelled from the spec: the conversion of astronomy.c from \<open>ut\<close> to \<open>tt\<close>,
  "\<open>tt = ut + \<Delta>T(ut)/86400\<close>".
\<close>

definition TerrestrialTime :: "(real \<Rightarrow> real) \<Rightarrow> real \<Rightarrow> real" where
  "TerrestrialTime dt u = u + dt u / 86400"

text \<open>
  Modelled from the spec: the construction of a \<open>Time\<close> from its \<open>ut\<close> in
  astronomy.c, the pair of \<open>ut\<close> and the \<open>tt\<close> that the Delta-T model gives for it.
\<close>

definition Time_of_ut :: "(real \<Rightarrow> real) \<Rightarrow> real \<Rightarrow> Time" where
  "Time_of_ut dt u = \<lparr>ut = u, tt = TerrestrialTime dt u\<rparr>"

text \<open>
  Modelled from the spec: \<open>Astronomy_AddDays\<close> of astronomy.c, "returns a new Time
  with \<open>ut' = ut + days\<close> and \<open>tt'\<close> recomputed from \<open>\<Delta>T(ut')\<close>, not simply
  \<open>tt + days\<close>".
\<close>

definition AddDays :: "(real \<Rightarrow> real) \<Rightarrow> Time \<Rightarrow> real \<Rightarrow> Time" where
  "AddDays dt time days = Time_of_ut dt (ut time + days)"

text \<open>
  Modelled from the spec: the invariant of a \<open>Time\<close> in the data model (section 3),
  "\<open>tt\<close> is a deterministic, monotonic function of \<open>ut\<close> given a Delta-T model";
  the type itself is in astronomy.h. Every value built by \<open>MakeTime\<close> or
  \<open>AddDays\<close> has the invariant.
\<close>

definition Time_valid :: "(real \<Rightarrow> real) \<Rightarrow> Time \<Rightarrow> bool" where
  "Time_valid dt time = (tt time = TerrestrialTime dt (ut time))"

text \<open>
  Modelled from the spec: the proleptic Gregorian calendar that \<open>Astronomy_MakeTime\<close>
  of astronomy.c decomposes its date in; the leap years.
\<close>

definition leap_year :: "int \<Rightarrow> bool" where
  "leap_year y = (y mod 4 = 0 \<and> (y mod 100 \<noteq> 0 \<or> y mod 400 = 0))"

text \<open>
  Modelled from the spec: for the calendar of \<open>Astronomy_MakeTime\<close>, the number of
  days from 0001-01-01 to the first day of year \<open>y\<close>.
\<close>

definition days_before_year :: "int \<Rightarrow> int" where
  "days_before_year y = 365 * (y - 1) + (y - 1) div 4 - (y - 1) div 100 + (y - 1) div 400"

text \<open>
  Modelled from the spec: for the calendar of \<open>Astronomy_MakeTime\<close>, the lengths of
  the twelve months of year \<open>y\<close>.
\<close>

definition month_lengths :: "int \<Rightarrow> int list" where
  "month_lengths y = [31, if leap_year y then 29 else 28, 31, 30, 31, 30, 31, 31, 30, 31, 30, 31]"

text \<open>
  Modelled from the spec: for the calendar of \<open>Astronomy_MakeTime\<close>, the number of
  days from 0001-01-01 to the given date.
\<close>

definition day_number :: "int \<Rightarrow> int \<Rightarrow> int \<Rightarrow> int" where
  "day_number y m d = days_before_year y + sum_list (take (nat (m - 1)) (month_lengths y)) + (d - 1)"

text \<open>
  Modelled from the spec: \<open>Astronomy_MakeTime\<close> of astronomy.c, "\<open>ut\<close> is the exact
  number of days (can be fractional) from the J2000 epoch implied by the calendar
  fields", the epoch being noon of 2000-01-01. ctest.c uses the result as a plain
  \<open>astro_time_t\<close>, without a status, so no \<open>InvalidDate\<close> outcome is modelled.
\<close>

definition MakeTime :: "(real \<Rightarrow> real) \<Rightarrow> int \<Rightarrow> int \<Rightarrow> int \<Rightarrow> int \<Rightarrow> int \<Rightarrow> real \<Rightarrow> Time" where
  "MakeTime dt year month day hour minute second =
     Time_of_ut dt
       (real_of_int (day_number year month day - day_number 2000 1 1) - 1 / 2
        + real_of_int hour / 24 + real_of_int minute / 1440 + second / 86400)"

section \<open>The conformance run (generate/ctest.c, AstroCheck)\<close>

text \<open>
  The types of astronomy.h that \<open>AstroCheck\<close> uses. The header is not among the
  sources, so only the fields that ctest.c reads are modelled, and every status other
  than \<open>ASTRO_SUCCESS\<close> is an error code.
\<close>

datatype astro_status = ASTRO_SUCCESS | ASTRO_ERROR nat

datatype astro_body =
    BODY_SUN | BODY_MERCURY | BODY_VENUS | BODY_EARTH | BODY_MARS
  | BODY_JUPITER | BODY_SATURN | BODY_URANUS | BODY_NEPTUNE | BODY_PLUTO | BODY_MOON

datatype astro_refraction = REFRACTION_NONE | REFRACTION_NORMAL | REFRACTION_JPLHOR

record astro_vector =
  vec_status :: astro_status
  vec_x :: real
  vec_y :: real
  vec_z :: real
  vec_t :: Time

record astro_equatorial =
  equ_status :: astro_status
  equ_ra :: real
  equ_dec :: real
  equ_dist :: real

record astro_horizon =
  azimuth :: real
  altitude :: real

record astro_observer =
  latitude :: real
  longitude :: real
  height :: real

text \<open>
  The functions of astronomy.c that \<open>AstroCheck\<close> calls besides the two time
  functions; astronomy.c is not among the sources, so they are parameters of the model,
  collected in one record.
\<close>

record astro_lib =
  MakeObserver :: "real \<Rightarrow> real \<Rightarrow> real \<Rightarrow> astro_observer"
  HelioVector :: "astro_body \<Rightarrow> Time \<Rightarrow> astro_vector"
  GeoVector :: "astro_body \<Rightarrow> Time \<Rightarrow> int \<Rightarrow> astro_vector"
  Equator :: "astro_body \<Rightarrow> Time \<Rightarrow> astro_observer \<Rightarrow> int \<Rightarrow> int \<Rightarrow> astro_equatorial"
  Horizon :: "Time \<Rightarrow> astro_observer \<Rightarrow> real \<Rightarrow> real \<Rightarrow> astro_refraction \<Rightarrow> astro_horizon"
  BodyName :: "astro_body \<Rightarrow> string"

text \<open>\<open>#define PI 3.14159265358979323846\<close>\<close>

definition PI :: real where
  "PI = 314159265358979323846 / 10 ^ 20"

text \<open>
  A line that \<open>fprintf\<close> writes to the output file: the record tag and the values
  passed for the conversions. The decimal text of the numbers is not modelled.
\<close>

datatype out_record =
    O_rec real real real
  | V_rec string real real real real
  | S_rec string real real real real real real real

definition CheckVector :: "astro_vector \<Rightarrow> int" where
  "CheckVector v = (if vec_status v \<noteq> ASTRO_SUCCESS then 1 else 0)"

definition CheckEquator :: "astro_equatorial \<Rightarrow> int" where
  "CheckEquator equ = (if equ_status equ \<noteq> ASTRO_SUCCESS then 1 else 0)"

definition bodylist :: "astro_body list" where
  "bodylist = [BODY_SUN, BODY_MERCURY, BODY_VENUS, BODY_EARTH, BODY_MARS,
               BODY_JUPITER, BODY_SATURN, BODY_URANUS, BODY_NEPTUNE, BODY_PLUTO]"

text \<open>
  The sky-coordinate lines: the two \<open>CHECK_EQU\<close> calls, the call of
  \<open>Astronomy_Horizon\<close> and the \<open>fprintf\<close> of an \<open>s\<close> record under the given
  name. The result is the value of \<open>error\<close> (nonzero: \<open>goto fail\<close>) and the
  lines written so far.
\<close>

definition AstroCheck_sky ::
  "astro_lib \<Rightarrow> astro_observer \<Rightarrow> Time \<Rightarrow> astro_body \<Rightarrow> string \<Rightarrow> out_record list
     \<Rightarrow> int \<times> out_record list" where
  "AstroCheck_sky lib observer time body name out =
     (let j2000 = Equator lib body time observer 0 0 in
      if CheckEquator j2000 \<noteq> 0 then (CheckEquator j2000, out)
      else
        let ofdate = Equator lib body time observer 1 1 in
        if CheckEquator ofdate \<noteq> 0 then (CheckEquator ofdate, out)
        else
          let hor = Horizon lib time observer (equ_ra ofdate) (equ_dec ofdate) REFRACTION_NONE
          in (0, out @ [S_rec name (tt time) (ut time) (equ_ra j2000) (equ_dec j2000)
                          (equ_dist j2000) (azimuth hor) (altitude hor)]))"

text \<open>The body of the \<open>for\<close> loop over \<open>bodylist\<close>, for one body.\<close>

definition AstroCheck_body ::
  "astro_lib \<Rightarrow> astro_observer \<Rightarrow> Time \<Rightarrow> astro_body \<Rightarrow> out_record list
     \<Rightarrow> int \<times> out_record list" where
  "AstroCheck_body lib observer time body out =
     (let pos = HelioVector lib body time in
      if CheckVector pos \<noteq> 0 then (CheckVector pos, out)
      else
        let out1 = out @ [V_rec (BodyName lib body) (tt (vec_t pos)) (vec_x pos) (vec_y pos) (vec_z pos)]
        in if body \<noteq> BODY_EARTH
           then AstroCheck_sky lib observer time body (BodyName lib body) out1
           else (0, out1))"

text \<open>The \<open>for\<close> loop; a failed \<open>CHECK\<close> leaves it at once.\<close>

fun AstroCheck_bodies ::
  "astro_lib \<Rightarrow> astro_observer \<Rightarrow> Time \<Rightarrow> astro_body list \<Rightarrow> out_record list
     \<Rightarrow> int \<times> out_record list" where
  "AstroCheck_bodies lib observer time [] out = (0, out)"
| "AstroCheck_bodies lib observer time (body # rest) out =
     (case AstroCheck_body lib observer time body out of
        (error, out1) \<Rightarrow>
          if error \<noteq> 0 then (error, out1)
          else AstroCheck_bodies lib observer time rest out1)"

text \<open>One pass of the \<open>while\<close> loop, without the final \<open>AddDays\<close>.\<close>

definition AstroCheck_sample ::
  "astro_lib \<Rightarrow> astro_observer \<Rightarrow> Time \<Rightarrow> out_record list \<Rightarrow> int \<times> out_record list" where
  "AstroCheck_sample lib observer time out =
     (case AstroCheck_bodies lib observer time bodylist out of
        (error, out1) \<Rightarrow>
          if error \<noteq> 0 then (error, out1)
          else
            let pos = GeoVector lib BODY_MOON time 0 in
            if CheckVector pos \<noteq> 0 then (CheckVector pos, out1)
            else
              AstroCheck_sky lib observer time BODY_MOON ''GM''
                (out1 @ [V_rec ''GM'' (tt (vec_t pos)) (vec_x pos) (vec_y pos) (vec_z pos)]))"

text \<open>
  The state of the run: the variable \<open>error\<close>, the lines written to the output file,
  and, as a ghost field that the C code does not have, the values of \<open>time\<close> with
  which the loop body was entered, that is, the times passed to the providers.
\<close>

record run_state =
  run_error :: int
  outfile :: "out_record list"
  sampled :: "Time list"

text \<open>
  \<open>while (time.tt < stop.tt)\<close>. Nothing in the loop bounds the number of passes for
  an arbitrary Delta-T model, so the model takes fuel, and \<open>None\<close> is a run that has not
  finished within it.
\<close>

fun AstroCheck_loop ::
  "nat \<Rightarrow> astro_lib \<Rightarrow> (real \<Rightarrow> real) \<Rightarrow> astro_observer \<Rightarrow> Time \<Rightarrow> Time \<Rightarrow> run_state
     \<Rightarrow> run_state option" where
  "AstroCheck_loop 0 lib dt observer time stop st = None"
| "AstroCheck_loop (Suc n) lib dt observer time stop st =
     (if tt time < tt stop then
        (case AstroCheck_sample lib observer time (outfile st) of
           (error, out1) \<Rightarrow>
             if error \<noteq> 0
             then Some \<lparr>run_error = error, outfile = out1, sampled = sampled st @ [time]\<rparr>
             else AstroCheck_loop n lib dt observer (AddDays dt time (10 + PI / 100)) stop
                    \<lparr>run_error = error, outfile = out1, sampled = sampled st @ [time]\<rparr>)
      else Some st)"

text \<open>The first line: \<open>fprintf(outfile, "o %lf %lf %lf\\n", ...)\<close> with the observer's fields.\<close>

definition observer_line :: "astro_observer \<Rightarrow> out_record" where
  "observer_line observer = O_rec (latitude observer) (longitude observer) (height observer)"

text \<open>
  \<open>AstroCheck\<close>: \<open>can_open\<close> tells whether \<open>fopen\<close> of the output file succeeds.
  \<open>error\<close> starts at 1 and is only assigned by the \<open>CHECK\<close> macros.
\<close>

definition AstroCheck :: "nat \<Rightarrow> astro_lib \<Rightarrow> (real \<Rightarrow> real) \<Rightarrow> bool \<Rightarrow> run_state option" where
  "AstroCheck fuel lib dt can_open =
     (let observer = MakeObserver lib 29 (-81) 10 in
      if \<not> can_open then Some \<lparr>run_error = 1, outfile = [], sampled = []\<rparr>
      else
        AstroCheck_loop fuel lib dt observer
          (MakeTime dt 1700 1 1 0 0 0) (MakeTime dt 2200 1 1 0 0 0)
          \<lparr>run_error = 1,
           outfile = [observer_line observer],
           sampled = []\<rparr>)"

text \<open>
  Modelled from the spec: the position models are "restricted to the years 1700--2200"
  (section 6), and a provider fails with \<open>OutOfRange\<close> for a time outside that
  window. The window runs from 1700-01-01 00:00 to 2200-01-01 00:00; the spec does not
  say on which of the two time scales, so a time is inside it when it is on both.
\<close>

definition in_model_window :: "(real \<Rightarrow> real) \<Rightarrow> Time \<Rightarrow> bool" where
  "in_model_window dt time =
     (ut (MakeTime dt 1700 1 1 0 0 0) \<le> ut time \<and> ut time \<le> ut (MakeTime dt 2200 1 1 0 0 0) \<and>
      tt (MakeTime dt 1700 1 1 0 0 0) \<le> tt time \<and> tt time \<le> tt (MakeTime dt 2200 1 1 0 0 0))"

text \<open>
  Modelled from the spec: a library whose providers succeed, for the bodies that
  \<open>AstroCheck\<close> passes to them, at every time inside the window.
\<close>

definition providers_cover_window :: "astro_lib \<Rightarrow> (real \<Rightarrow> real) \<Rightarrow> bool" where
  "providers_cover_window lib dt =
     (\<forall>time. in_model_window dt time \<longrightarrow>
        (\<forall>body. vec_status (HelioVector lib body time) = ASTRO_SUCCESS) \<and>
        (\<forall>a. vec_status (GeoVector lib BODY_MOON time a) = ASTRO_SUCCESS) \<and>
        (\<forall>body observer ofdate a.
           body \<noteq> BODY_EARTH \<longrightarrow>
           equ_status (Equator lib body time observer ofdate a) = ASTRO_SUCCESS))"

text \<open>The tag and the body name of an output line (an observer line has no name).\<close>

fun record_head :: "out_record \<Rightarrow> char \<times> string" where
  "record_head (O_rec lat lon h) = (CHR ''o'', [])"
| "record_head (V_rec name t1 x1 y1 z1) = (CHR ''v'', name)"
| "record_head (S_rec name t1 u1 ra1 dec1 dist1 az1 alt1) = (CHR ''s'', name)"

text \<open>
  The lines that one sampled time contributes, as the claim about the output describes
  them: for each body of the list a \<open>v\<close> line and, unless the body is the Earth, an
  \<open>s\<close> line; then the \<open>v\<close> and \<open>s\<close> lines of the Moon under the name GM.
\<close>

definition body_layout :: "astro_lib \<Rightarrow> astro_body \<Rightarrow> (char \<times> string) list" where
  "body_layout lib body =
     (CHR ''v'', BodyName lib body) #
     (if body \<noteq> BODY_EARTH then [(CHR ''s'', BodyName lib body)] else [])"

definition sample_layout :: "astro_lib \<Rightarrow> (char \<times> string) list" where
  "sample_layout lib =
     concat (map (body_layout lib) bodylist) @ [(CHR ''v'', ''GM''), (CHR ''s'', ''GM'')]"

text \<open>
  The lines themselves, as the claim about the output describes them. The \<open>v\<close> line
  of a body holds its heliocentric vector at the sampled time, the \<open>v\<close> line of the
  Moon its geocentric vector without aberration, each with the \<open>tt\<close> of the vector's
  own time. An \<open>s\<close> line holds the \<open>tt\<close> and \<open>ut\<close> of the sampled time, the
  J2000 equatorial coordinates of the body (right ascension, declination, distance),
  and the azimuth and altitude, without refraction, of its equatorial coordinates of
  date with aberration.
\<close>

definition helio_record :: "astro_lib \<Rightarrow> Time \<Rightarrow> astro_body \<Rightarrow> out_record" where
  "helio_record lib time body =
     V_rec (BodyName lib body)
       (tt (vec_t (HelioVector lib body time)))
       (vec_x (HelioVector lib body time))
       (vec_y (HelioVector lib body time))
       (vec_z (HelioVector lib body time))"

definition geo_moon_record :: "astro_lib \<Rightarrow> Time \<Rightarrow> out_record" where
  "geo_moon_record lib time =
     V_rec ''GM''
       (tt (vec_t (GeoVector lib BODY_MOON time 0)))
       (vec_x (GeoVector lib BODY_MOON time 0))
       (vec_y (GeoVector lib BODY_MOON time 0))
       (vec_z (GeoVector lib BODY_MOON time 0))"

definition sky_record ::
  "astro_lib \<Rightarrow> astro_observer \<Rightarrow> Time \<Rightarrow> astro_body \<Rightarrow> string \<Rightarrow> out_record" where
  "sky_record lib observer time body name =
     S_rec name (tt time) (ut time)
       (equ_ra (Equator lib body time observer 0 0))
       (equ_dec (Equator lib body time observer 0 0))
       (equ_dist (Equator lib body time observer 0 0))
       (azimuth (Horizon lib time observer
          (equ_ra (Equator lib body time observer 1 1))
          (equ_dec (Equator lib body time observer 1 1)) REFRACTION_NONE))
       (altitude (Horizon lib time observer
          (equ_ra (Equator lib body time observer 1 1))
          (equ_dec (Equator lib body time observer 1 1)) REFRACTION_NONE))"

definition body_records ::
  "astro_lib \<Rightarrow> astro_observer \<Rightarrow> Time \<Rightarrow> astro_body \<Rightarrow> out_record list" where
  "body_records lib observer time body =
     helio_record lib time body #
     (if body \<noteq> BODY_EARTH then [sky_record lib observer time body (BodyName lib body)] else [])"

definition sample_records :: "astro_lib \<Rightarrow> astro_observer \<Rightarrow> Time \<Rightarrow> out_record list" where
  "sample_records lib observer time =
     concat (map (body_records lib observer time) bodylist)
     @ [geo_moon_record lib time, sky_record lib observer time BODY_MOON ''GM'']"

text \<open>
  The whole output for a list of sampled times: the line of the observer, then the
  lines of each sampled time in turn.
\<close>

definition expected_output :: "astro_lib \<Rightarrow> Time list \<Rightarrow> out_record list" where
  "expected_output lib ts =
     observer_line (MakeObserver lib 29 (-81) 10)
     # concat (map (sample_records lib (MakeObserver lib 29 (-81) 10)) ts)"

text \<open>
  A library to run the model on. A provider fails, with one error code, for a time later
  than \<open>limit\<close> (and \<open>Equator\<close> for the Earth). Each provider returns values of its
  own, \<open>Equator\<close> values that tell its two flags apart, and \<open>Horizon\<close> values that
  depend on the coordinates passed to it; the names are those of the C library.
\<close>

fun example_name :: "astro_body \<Rightarrow> string" where
  "example_name BODY_SUN = ''Sun''"
| "example_name BODY_MERCURY = ''Mercury''"
| "example_name BODY_VENUS = ''Venus''"
| "example_name BODY_EARTH = ''Earth''"
| "example_name BODY_MARS = ''Mars''"
| "example_name BODY_JUPITER = ''Jupiter''"
| "example_name BODY_SATURN = ''Saturn''"
| "example_name BODY_URANUS = ''Uranus''"
| "example_name BODY_NEPTUNE = ''Neptune''"
| "example_name BODY_PLUTO = ''Pluto''"
| "example_name BODY_MOON = ''Moon''"

definition example_status :: "real \<Rightarrow> Time \<Rightarrow> astro_status" where
  "example_status limit time = (if ut time \<le> limit then ASTRO_SUCCESS else ASTRO_ERROR 1)"

definition example_lib :: "real \<Rightarrow> astro_lib" where
  "example_lib limit =
     \<lparr>MakeObserver = (\<lambda>lat lon h. \<lparr>latitude = lat, longitude = lon, height = h\<rparr>),
      HelioVector = (\<lambda>body time.
        \<lparr>vec_status = example_status limit time, vec_x = 1, vec_y = 2, vec_z = 3, vec_t = time\<rparr>),
      GeoVector = (\<lambda>body time aberration.
        \<lparr>vec_status = example_status limit time, vec_x = 4, vec_y = 5, vec_z = 6, vec_t = time\<rparr>),
      Equator = (\<lambda>body time observer ofdate aberration.
        \<lparr>equ_status = (if body = BODY_EARTH then ASTRO_ERROR 2 else example_status limit time),
         equ_ra = (if ofdate = 0 then 7 else 8),
         equ_dec = (if aberration = 0 then 9 else 10),
         equ_dist = 11\<rparr>),
      Horizon = (\<lambda>time observer ra dec refraction. \<lparr>azimuth = ra + 100, altitude = dec + 200\<rparr>),
      BodyName = example_name\<rparr>"

section \<open>The comparison of two output files (generate/ctest.c, Diff and DiffLine)\<close>

subsection \<open>The C library calls\<close>

text \<open>
  \<open>sscanf\<close> for the three formats of \<open>DiffLine\<close>, after the C standard: white space
  in the format skips any white space of the input, an ordinary character must match
  the next input character, \<open>%9[A-Za-z]\<close> reads one to nine letters without skipping
  white space, \<open>%lf\<close> skips white space and reads a number. A directive that cannot
  read anything ends the call; the result is the number of values assigned, or
  \<open>EOF\<close> (-1) when the input ran out before the first assignment.

  Numbers are read in plain decimal notation, an optional sign and digits with an
  optional point, which is what \<open>AstroCheck\<close> writes; their value is the exact real
  number. The exponent, hexadecimal, \<open>inf\<close> and \<open>nan\<close> spellings that \<open>strtod\<close>
  also accepts, and the rounding to a double, are outside the model.
\<close>

definition isspace :: "char \<Rightarrow> bool" where
  "isspace c = (c \<in> set [CHR '' '', CHR 0x09, CHR 0x0A, CHR 0x0B, CHR 0x0C, CHR 0x0D])"

definition isdigit :: "char \<Rightarrow> bool" where
  "isdigit c = (c \<in> set ''0123456789'')"

definition in_scanset :: "char \<Rightarrow> bool" where
  "in_scanset c = (c \<in> set ''ABCDEFGHIJKLMNOPQRSTUVWXYZabcdefghijklmnopqrstuvwxyz'')"

definition digit_value :: "char \<Rightarrow> int" where
  "digit_value c = of_char c - 48"

definition decimal :: "string \<Rightarrow> int" where
  "decimal ds = foldl (\<lambda>a c. 10 * a + digit_value c) 0 ds"

definition read_sign :: "string \<Rightarrow> bool \<times> string" where
  "read_sign inp =
     (case inp of
        [] \<Rightarrow> (False, [])
      | c # cs \<Rightarrow> if c = CHR ''-'' then (True, cs)
                  else if c = CHR ''+'' then (False, cs)
                  else (False, inp))"

definition read_fraction :: "string \<Rightarrow> string \<times> string" where
  "read_fraction inp =
     (case inp of
        [] \<Rightarrow> ([], [])
      | c # cs \<Rightarrow> if c = CHR ''.'' then (takeWhile isdigit cs, dropWhile isdigit cs)
                  else ([], inp))"

definition read_double :: "string \<Rightarrow> (real \<times> string) option" where
  "read_double inp =
     (case read_sign inp of
        (negative, s1) \<Rightarrow>
          (case read_fraction (dropWhile isdigit s1) of
             (fp, rest) \<Rightarrow>
               let ip = takeWhile isdigit s1 in
               if ip = [] \<and> fp = [] then None
               else
                 let v = real_of_int (decimal ip) + real_of_int (decimal fp) / 10 ^ length fp
                 in Some (if negative then - v else v, rest)))"

datatype directive = Literal char | White | Letters9 | Double

datatype scanned = Name string | Number real

text \<open>A directive fails: \<open>EOF\<close> if the input is exhausted and nothing was assigned.\<close>

definition scan_stop :: "string \<Rightarrow> scanned list \<Rightarrow> int \<times> scanned list" where
  "scan_stop inp vals = (if inp = [] \<and> vals = [] then (-1, vals) else (int (length vals), vals))"

fun sscanf :: "directive list \<Rightarrow> string \<Rightarrow> scanned list \<Rightarrow> int \<times> scanned list" where
  "sscanf [] inp vals = (int (length vals), vals)"
| "sscanf (White # ds) inp vals = sscanf ds (dropWhile isspace inp) vals"
| "sscanf (Literal c # ds) inp vals =
     (case inp of
        [] \<Rightarrow> scan_stop inp vals
      | a # rest \<Rightarrow> if a = c then sscanf ds rest vals else scan_stop inp vals)"
| "sscanf (Letters9 # ds) inp vals =
     (let item = take 9 (takeWhile in_scanset inp) in
      if item = [] then scan_stop inp vals
      else sscanf ds (drop (length item) inp) (vals @ [Name item]))"
| "sscanf (Double # ds) inp vals =
     (let inp1 = dropWhile isspace inp in
      case read_double inp1 of
        None \<Rightarrow> scan_stop inp1 vals
      | Some (v, rest) \<Rightarrow> sscanf ds rest (vals @ [Number v]))"

text \<open>\<open>"o %lf %lf %lf"\<close>, \<open>"v %9[A-Za-z] %lf %lf %lf"\<close> and
  \<open>"s %9[A-Za-z] %lf %lf %lf %lf %lf %lf %lf"\<close>.\<close>

definition format_o :: "directive list" where
  "format_o = [Literal CHR ''o'', White, Double, White, Double, White, Double]"

definition format_v :: "directive list" where
  "format_v = [Literal CHR ''v'', White, Letters9, White, Double, White, Double, White, Double]"

definition format_s :: "directive list" where
  "format_s = [Literal CHR ''s'', White, Letters9, White, Double, White, Double, White, Double,
               White, Double, White, Double, White, Double, White, Double]"

text \<open>
  The values that a call has assigned, as \<open>DiffLine\<close> holds them: the body name
  (\<open>cbody\<close>, \<open>jbody\<close>) and the numbers in the order of assignment (\<open>cdata\<close>,
  \<open>jdata\<close>). \<open>DiffLine\<close> reads them only after it has checked that the call assigned
  all the values of its format, so the bytes that the arrays hold when nothing was
  assigned never matter.
\<close>

fun scanned_body :: "scanned list \<Rightarrow> string" where
  "scanned_body [] = []"
| "scanned_body (Name b # vals) = b"
| "scanned_body (Number v # vals) = scanned_body vals"

fun scanned_data :: "scanned list \<Rightarrow> real list" where
  "scanned_data [] = []"
| "scanned_data (Name b # vals) = scanned_data vals"
| "scanned_data (Number v # vals) = v # scanned_data vals"

text \<open>
  \<open>fgets(line, 200, file)\<close>: the next characters of the file, up to and including a
  line feed, at most 199 of them; the loop of \<open>Diff\<close> gets the successive results
  until the end of the file. The callers read a line as a C string, which ends at the
  first NUL.
\<close>

fun fgets_take :: "nat \<Rightarrow> string \<Rightarrow> string" where
  "fgets_take 0 cs = []"
| "fgets_take (Suc n) [] = []"
| "fgets_take (Suc n) (c # cs) = (if c = CHR 0x0A then [c] else c # fgets_take n cs)"

function fgets_all :: "string \<Rightarrow> string list" where
  "fgets_all cs =
     (if cs = [] then []
      else fgets_take 199 cs # fgets_all (drop (length (fgets_take 199 cs)) cs))"
  by pat_completeness auto
termination
proof (relation "measure length")
  show "wf (measure length)" by simp
next
  fix cs :: string
  assume nonempty: "cs \<noteq> []"
  then obtain a as where "cs = a # as" by (cases cs) auto
  then have "0 < length (fgets_take 199 cs)"
    by (simp add: numeral_eq_Suc)
  with nonempty show "(drop (length (fgets_take 199 cs)) cs, cs) \<in> measure length"
    by simp
qed

definition c_string :: "string \<Rightarrow> string" where
  "c_string buf = takeWhile (\<lambda>c. c \<noteq> CHR 0x00) buf"

text \<open>\<open>line[0]\<close> of a C string: the terminating NUL if the string is empty.\<close>

definition first_char :: "string \<Rightarrow> char" where
  "first_char line = (case line of [] \<Rightarrow> CHR 0x00 | c # cs \<Rightarrow> c)"

subsection \<open>DiffLine and Diff\<close>

text \<open>
  The loop "Verify all the numeric data are very close": \<open>maxdiff\<close> and
  \<open>worst_lnum\<close> are passed through as a pair.
\<close>

definition compare_data ::
  "int \<Rightarrow> real list \<Rightarrow> real list \<Rightarrow> nat \<Rightarrow> real \<times> int \<Rightarrow> real \<times> int" where
  "compare_data lnum cdata jdata nrequired acc =
     fold (\<lambda>i (maxdiff, worst_lnum).
             let diff = \<bar>cdata ! i - jdata ! i\<bar>
             in if diff > maxdiff then (diff, lnum) else (maxdiff, worst_lnum))
          [0..<nrequired] acc"

text \<open>
  The part of \<open>DiffLine\<close> after the \<open>switch\<close>: \<open>nc\<close>, \<open>nj\<close> are the results of
  the two \<open>sscanf\<close> calls. The result is the returned \<open>error\<close> with the updated
  \<open>maxdiff\<close> and \<open>worst_lnum\<close>.
\<close>

definition DiffLine_check ::
  "int \<Rightarrow> int \<Rightarrow> int \<Rightarrow> int \<Rightarrow> string \<Rightarrow> string \<Rightarrow> real list \<Rightarrow> real list \<Rightarrow> real \<times> int
     \<Rightarrow> int \<times> (real \<times> int)" where
  "DiffLine_check lnum nc nj nrequired cbody jbody cdata jdata acc =
     (if nc \<noteq> nj then (1, acc)
      else if nc \<noteq> nrequired then (1, acc)
      else if cbody \<noteq> jbody then (1, acc)
      else
        let nrequired1 = (if first_char cbody \<noteq> CHR 0x00 then nrequired - 1 else nrequired)
        in (0, compare_data lnum cdata jdata (nat nrequired1) acc))"

definition DiffLine :: "int \<Rightarrow> string \<Rightarrow> string \<Rightarrow> real \<times> int \<Rightarrow> int \<times> (real \<times> int)" where
  "DiffLine lnum cline jline acc =
     (if first_char cline \<noteq> first_char jline then (1, acc)
      else if first_char cline = CHR ''o'' then
        (case (sscanf format_o cline [], sscanf format_o jline []) of
           ((nc, cvals), (nj, jvals)) \<Rightarrow>
             DiffLine_check lnum nc nj 3 [] [] (scanned_data cvals) (scanned_data jvals) acc)
      else if first_char cline = CHR ''v'' then
        (case (sscanf format_v cline [], sscanf format_v jline []) of
           ((nc, cvals), (nj, jvals)) \<Rightarrow>
             DiffLine_check lnum nc nj 4 (scanned_body cvals) (scanned_body jvals)
               (scanned_data cvals) (scanned_data jvals) acc)
      else if first_char cline = CHR ''s'' then
        (case (sscanf format_s cline [], sscanf format_s jline []) of
           ((nc, cvals), (nj, jvals)) \<Rightarrow>
             DiffLine_check lnum nc nj 8 (scanned_body cvals) (scanned_body jvals)
               (scanned_data cvals) (scanned_data jvals) acc)
      else (1, acc))"

text \<open>
  The \<open>for(;;)\<close> loop of \<open>Diff\<close> over the results of \<open>fgets\<close> on the two files:
  it ends normally when both files end together.
\<close>

fun Diff_loop :: "string list \<Rightarrow> string list \<Rightarrow> int \<Rightarrow> real \<times> int \<Rightarrow> int \<times> (real \<times> int)" where
  "Diff_loop [] [] lnum acc = (0, acc)"
| "Diff_loop [] (jread # js) lnum acc = (1, acc)"
| "Diff_loop (cread # cs) [] lnum acc = (1, acc)"
| "Diff_loop (cread # cs) (jread # js) lnum acc =
     (case DiffLine (lnum + 1) (c_string cread) (c_string jread) acc of
        (error, acc1) \<Rightarrow>
          if error \<noteq> 0 then (error, acc1) else Diff_loop cs js (lnum + 1) acc1)"

text \<open>
  \<open>Diff\<close>: a file is its contents, or \<open>None\<close> if \<open>fopen\<close> fails. The result is
  the returned \<open>error\<close>, 0 for success.
\<close>

definition Diff :: "string option \<Rightarrow> string option \<Rightarrow> int" where
  "Diff cfile jfile =
     (case cfile of
        None \<Rightarrow> 1
      | Some c \<Rightarrow>
         (case jfile of
            None \<Rightarrow> 1
          | Some j \<Rightarrow>
             (case Diff_loop (fgets_all c) (fgets_all j) 0 (0, 0) of
                (error, (maxdiff, worst_lnum)) \<Rightarrow>
                  if error \<noteq> 0 then error
                  else if maxdiff > 18 / 10 ^ 13 then 1
                  else 0)))"

section \<open>Properties of the quadratic interpolation\<close>

subsection \<open>The solver, branch by branch\<close>

lemma Solve_no_error: "\<exists>r. Solve p = Inr r"
  by (auto simp: Solve_def py_div_def math_sqrt_def Let_def)

lemma Solve_line:
  "Q p = 0 \<Longrightarrow> Solve p = Inr (if R p \<noteq> 0 \<and> in_unit_range (- S p / R p) then Some (- S p / R p) else None)"
  by (auto simp: Solve_def py_div_def)



lemma roots_distinct:
  assumes q: "Q p \<noteq> 0" and u: "0 < discriminant p"
  shows "root_plus p \<noteq> root_minus p"
  using q u by (simp add: root_plus_def root_minus_def field_simps)




subsection \<open>The fitted parabola and the time parameter\<close>

text \<open>
  Claim C2. For all sample values \<open>fa = f ta\<close>, \<open>fm = f tm\<close>, \<open>fb = f tb\<close> the
  coefficients that \<open>Parabola\<close> computes give a parabola through the three points,
  \<open>p(-1) = fa\<close>, \<open>p(0) = fm\<close>, \<open>p(+1) = fb\<close>, and it is the only one; and on a
  bracket with \<open>ta \<noteq> tb\<close> the conversion \<open>t = tm + x*(tb - tm)\<close> and the
  parameter \<open>x = (t - tm)/(tb - tm)\<close> are inverse to each other.
\<close>

theorem Parabola_interpolates:
  "Q (Parabola_init f ta tb) = (f tb + f ta) / 2 - f ((tb + ta) / 2) \<and>
   R (Parabola_init f ta tb) = (f tb - f ta) / 2 \<and>
   S (Parabola_init f ta tb) = f ((tb + ta) / 2) \<and>
   Eval (Parabola_init f ta tb) (-1) = f ta \<and>
   Eval (Parabola_init f ta tb) 0 = f ((tb + ta) / 2) \<and>
   Eval (Parabola_init f ta tb) 1 = f tb \<and>
   (\<forall>p. Eval p (-1) = f ta \<and> Eval p 0 = f ((tb + ta) / 2) \<and> Eval p 1 = f tb
        \<longrightarrow> p = Parabola_init f ta tb) \<and>
   (ta \<noteq> tb \<longrightarrow> x_of_t ta tb (t_of_x ta tb x) = x \<and> t_of_x ta tb (x_of_t ta tb t) = t)"
proof -
  have fit: "Eval (Parabola_init f ta tb) (-1) = f ta"
    "Eval (Parabola_init f ta tb) 0 = f ((tb + ta) / 2)"
    "Eval (Parabola_init f ta tb) 1 = f tb"
    by (simp_all add: Eval_def Parabola_init_def Let_def field_simps)
  have unique: "p = Parabola_init f ta tb"
    if "Eval p (-1) = f ta \<and> Eval p 0 = f ((tb + ta) / 2) \<and> Eval p 1 = f tb" for p
  proof -
    from that have s: "S p = f ((tb + ta) / 2)" and m: "Q p - R p + S p = f ta"
      and e: "Q p + R p + S p = f tb"
      by (simp_all add: Eval_def)
    from m e have "R p = (f tb - f ta) / 2" by argo
    moreover from m e s have "Q p = (f tb + f ta) / 2 - f ((tb + ta) / 2)" by argo
    ultimately show ?thesis using s
      by (simp add: Parabola_init_def Let_def)
  qed
  have inv: "x_of_t ta tb (t_of_x ta tb x) = x \<and> t_of_x ta tb (x_of_t ta tb t) = t" if "ta \<noteq> tb"
  proof -
    have nz: "tb - (tb + ta) / 2 \<noteq> 0" "tb - (ta + tb) / 2 \<noteq> 0" using that by (simp_all add: field_simps)
    have c: "(ta + tb) / 2 = (tb + ta) / 2" by simp
    show ?thesis using nz unfolding x_of_t_def t_of_x_def Let_def c by simp
  qed
  have coeff: "Q (Parabola_init f ta tb) = (f tb + f ta) / 2 - f ((tb + ta) / 2)"
    "R (Parabola_init f ta tb) = (f tb - f ta) / 2"
    "S (Parabola_init f ta tb) = f ((tb + ta) / 2)"
    by (simp_all add: Parabola_init_def Let_def)
  from coeff fit unique inv show ?thesis by blast
qed

theorem Parabola_interpolates_witness:
  "(0::real) \<noteq> 2 \<and>
   Eval \<lparr>Q = 1, R = 2, S = 1\<rparr> (-1) = (\<lambda>t::real. t * t) 0 \<and>
   Eval \<lparr>Q = 1, R = 2, S = 1\<rparr> 0 = (\<lambda>t::real. t * t) ((2 + 0) / 2) \<and>
   Eval \<lparr>Q = 1, R = 2, S = 1\<rparr> 1 = (\<lambda>t::real. t * t) 2 \<and>
   \<lparr>Q = 1, R = 2, S = 1\<rparr> = Parabola_init (\<lambda>t::real. t * t) 0 2 \<and>
   x_of_t 0 2 (t_of_x 0 2 (1 / 2)) = 1 / 2 \<and>
   t_of_x 0 2 (x_of_t 0 2 (3 / 2)) = 3 / 2"
  using Parabola_interpolates [of "\<lambda>t. t * t" 0 2 "1 / 2" "3 / 2"]
  by (simp add: Eval_def)

subsection \<open>The solver raises nothing\<close>

text \<open>
  Claim C5. \<open>Solve\<close> returns for every parabola and never raises: no division has a
  zero divisor (and no square root a negative argument). When \<open>Q = 0\<close> the estimate
  \<open>-S/R\<close> is computed only for \<open>R \<noteq> 0\<close> and returned only when it lies in
  \<open>[-1, 1]\<close>; otherwise the result is \<open>None\<close>.
\<close>

theorem Solve_never_divides_by_zero:
  "(\<forall>e. Solve p \<noteq> Inl e) \<and>
   (\<exists>r. Solve p = Inr r) \<and>
   (Q p = 0 \<longrightarrow>
      Solve p = Inr (if R p \<noteq> 0 \<and> in_unit_range (- S p / R p)
                     then Some (- S p / R p) else None))"
  using Solve_no_error [of p] Solve_line [of p] by auto

theorem Solve_never_divides_by_zero_witness:
  "Q \<lparr>Q = 0, R = 2, S = 1\<rparr> = 0 \<and>
   Solve \<lparr>Q = 0, R = 2, S = 1\<rparr> = Inr (Some (- 1 / 2)) \<and>
   Solve \<lparr>Q = 0, R = 0, S = 1\<rparr> = Inr None \<and>
   Solve \<lparr>Q = 0, R = 1, S = 2\<rparr> = Inr None"
  using Solve_never_divides_by_zero [of "\<lparr>Q = 0, R = 2, S = 1\<rparr>"]
    Solve_never_divides_by_zero [of "\<lparr>Q = 0, R = 0, S = 1\<rparr>"]
    Solve_never_divides_by_zero [of "\<lparr>Q = 0, R = 1, S = 2\<rparr>"]
  by (simp add: in_unit_range_def)

subsection \<open>The solver returns a single root or nothing, and the search follows it\<close>





lemma two_crossings_signs:
  "(t < - 4 / 7 \<longrightarrow> two_crossings t < 0) \<and>
   (- 4 / 7 < t \<and> t < - 1 / 2 \<longrightarrow> 0 < two_crossings t) \<and>
   (- 1 / 2 < t \<and> t \<noteq> 1 \<longrightarrow> two_crossings t < 0) \<and>
   two_crossings (- 4 / 7) = 0 \<and> two_crossings (- 1 / 2) = 0 \<and> two_crossings 1 = 0"
proof -
  have sq: "0 < (1 - t) * (1 - t)" if "t \<noteq> 1"
    using that by (simp add: zero_less_mult_iff) linarith
  have eq: "two_crossings t = - ((7 / 2) * ((1 - t) * (1 - t)) * ((t + 1 / 2) * (t + 4 / 7)))"
    by (simp add: two_crossings_def)
  have a: "two_crossings t < 0" if "t < - 4 / 7"
  proof -
    from that have "0 < (t + 1 / 2) * (t + 4 / 7)" by (simp add: zero_less_mult_iff)
    moreover from that have "0 < (1 - t) * (1 - t)" by (intro sq) simp
    ultimately show ?thesis unfolding eq by simp
  qed
  have b: "0 < two_crossings t" if "- 4 / 7 < t \<and> t < - 1 / 2"
  proof -
    from that have "(t + 1 / 2) * (t + 4 / 7) < 0" by (simp add: mult_less_0_iff)
    moreover from that have "0 < (1 - t) * (1 - t)" by (intro sq) simp
    ultimately have "(7 / 2) * ((1 - t) * (1 - t)) * ((t + 1 / 2) * (t + 4 / 7)) < 0"
      by (simp add: mult_less_0_iff)
    then show ?thesis unfolding eq by simp
  qed
  have c: "two_crossings t < 0" if "- 1 / 2 < t \<and> t \<noteq> 1"
  proof -
    from that have "0 < (t + 1 / 2) * (t + 4 / 7)" by (simp add: zero_less_mult_iff)
    moreover from that have "0 < (1 - t) * (1 - t)" by (intro sq) simp
    ultimately show ?thesis unfolding eq by simp
  qed
  from a b c show ?thesis by (simp add: two_crossings_def)
qed

lemma no_crossing_negative: "- 4 < t \<and> t \<noteq> 1 \<longrightarrow> no_crossing t < 0"
proof
  assume h: "- 4 < t \<and> t \<noteq> 1"
  then have "0 < (1 - t) * (1 - t)" by (simp add: zero_less_mult_iff) linarith
  moreover from h have "0 < 1 + t / 4" by simp
  ultimately have "0 < (1 - t) * (1 - t) * (1 + t / 4)" by simp
  then show "no_crossing t < 0" by (simp add: no_crossing_def)
qed






section \<open>Properties of the time model\<close>

lemma Time_of_ut_valid: "Time_valid dt (Time_of_ut dt u)"
  by (simp add: Time_valid_def Time_of_ut_def)

text \<open>
  Claim C8. \<open>AddDays(t, 0) = t\<close> for every time \<open>t\<close> that has the invariant of the
  data model; and for every \<open>t\<close> and \<open>days\<close>, \<open>AddDays(t, days)\<close> is a new time
  with \<open>ut' = ut + days\<close> and \<open>tt' = ut' + \<Delta>T(ut')/86400\<close>, which differs from
  \<open>tt + days\<close> unless Delta-T is the same at both dates.
\<close>

theorem AddDays_recomputes_tt:
  "(Time_valid dt time \<longrightarrow> AddDays dt time 0 = time) \<and>
   ut (AddDays dt time days) = ut time + days \<and>
   tt (AddDays dt time days) = (ut time + days) + dt (ut time + days) / 86400 \<and>
   Time_valid dt (AddDays dt time days) \<and>
   (Time_valid dt time \<longrightarrow>
      (tt (AddDays dt time days) = tt time + days \<longleftrightarrow> dt (ut time + days) = dt (ut time)))"
  by (auto simp: AddDays_def Time_of_ut_def Time_valid_def TerrestrialTime_def)

theorem AddDays_recomputes_tt_witness:
  "Time_valid (\<lambda>u. 69 + u / 1000) \<lparr>ut = 0, tt = 69 / 86400\<rparr> \<and>
   AddDays (\<lambda>u. 69 + u / 1000) \<lparr>ut = 0, tt = 69 / 86400\<rparr> 0 = \<lparr>ut = 0, tt = 69 / 86400\<rparr> \<and>
   tt (AddDays (\<lambda>u. 69 + u / 1000) \<lparr>ut = 0, tt = 69 / 86400\<rparr> 1000) = 1000 + 70 / 86400 \<and>
   tt (AddDays (\<lambda>u. 69 + u / 1000) \<lparr>ut = 0, tt = 69 / 86400\<rparr> 1000) \<noteq> tt \<lparr>ut = 0, tt = 69 / 86400\<rparr> + 1000"
  using AddDays_recomputes_tt [of "\<lambda>u. 69 + u / 1000" "\<lparr>ut = 0, tt = 69 / 86400\<rparr>" 1000]
  by (simp add: Time_valid_def TerrestrialTime_def)

text \<open>
  The \<open>ut\<close> of the instant that \<open>Test_AstroTime\<close> checks, 2018-12-02 18:30:12.543:
  it is within \<open>1e-12\<close> of the expected 6910.270978506945 whatever the Delta-T model.
  The \<open>tt\<close> of that instant is \<open>ut + \<Delta>T(ut)/86400\<close>, which the Delta-T table
  decides.
\<close>

lemma MakeTime_2018_ut:
  "\<bar>ut (MakeTime dt 2018 12 2 18 30 12.543) - 6910.270978506945\<bar> \<le> 1 / 10 ^ 12"
  by (simp add: MakeTime_def Time_of_ut_def day_number_def days_before_year_def month_lengths_def
      leap_year_def)

section \<open>Properties of the conformance run\<close>

subsection \<open>The sampled times\<close>

lemma PI_pos: "0 < 10 + PI / 100"
  by (simp add: PI_def)

lemma AddDays_Time_of_ut: "AddDays dt (Time_of_ut dt u) d = Time_of_ut dt (u + d)"
  by (simp add: AddDays_def Time_of_ut_def)

lemma MakeTime_1700: "MakeTime dt 1700 1 1 0 0 0 = Time_of_ut dt (- 109572.5)"
  by (simp add: MakeTime_def day_number_def days_before_year_def month_lengths_def)

lemma MakeTime_2200: "MakeTime dt 2200 1 1 0 0 0 = Time_of_ut dt 73048.5"
  by (simp add: MakeTime_def day_number_def days_before_year_def month_lengths_def)

lemma step_shift: "(v::real) + s + real i * s = v + real (Suc i) * s"
  by (simp add: algebra_simps)

lemma step_bound: "(c::real) - u \<le> real (Suc n) * s \<Longrightarrow> c - (u + s) \<le> real n * s"
  by (simp add: algebra_simps)

lemma loop_sampled:
  "AstroCheck_loop n lib dt observer (Time_of_ut dt u) stop st0 = Some st \<Longrightarrow>
     \<exists>k. sampled st = sampled st0 @ map (\<lambda>i. Time_of_ut dt (u + real i * (10 + PI / 100))) [0..<k] \<and>
         (\<forall>i<k. tt (Time_of_ut dt (u + real i * (10 + PI / 100))) < tt stop)"
proof (induction n arbitrary: u st0)
  case 0
  then show ?case by simp
next
  case (Suc n)
  let ?step = "10 + PI / 100"
  let ?T = "\<lambda>v i. Time_of_ut dt (v + real i * ?step)"
  show ?case
  proof (cases "tt (Time_of_ut dt u) < tt stop")
    case False
    with Suc.prems have "st = st0" by simp
    then have "sampled st = sampled st0 @ map (?T u) [0..<0] \<and> (\<forall>i<0. tt (?T u i) < tt stop)"
      by simp
    then show ?thesis by (intro exI [of _ "0::nat"])
  next
    case True
    obtain e out1 where s: "AstroCheck_sample lib observer (Time_of_ut dt u) (outfile st0) = (e, out1)"
      by (cases "AstroCheck_sample lib observer (Time_of_ut dt u) (outfile st0)")
    let ?st1 = "\<lparr>run_error = e, outfile = out1, sampled = sampled st0 @ [Time_of_ut dt u]\<rparr>"
    show ?thesis
    proof (cases "e = 0")
      case False
      with Suc.prems True s have "st = ?st1" by simp
      with True have "sampled st = sampled st0 @ map (?T u) [0..<1] \<and> (\<forall>i<1. tt (?T u i) < tt stop)"
        by simp
      then show ?thesis by (intro exI [of _ "1::nat"])
    next
      case ok: True
      with Suc.prems True s
      have "AstroCheck_loop n lib dt observer (Time_of_ut dt (u + ?step)) stop ?st1 = Some st"
        by (simp add: AddDays_Time_of_ut)
      from Suc.IH [OF this] obtain k where k:
        "sampled st = (sampled st0 @ [Time_of_ut dt u]) @ map (?T (u + ?step)) [0..<k]"
        "\<forall>i<k. tt (?T (u + ?step) i) < tt stop"
        by auto
      have shift: "?T (u + ?step) i = ?T u (Suc i)" for i
        by (simp only: step_shift)
      have "map (?T u) [0..<Suc k] = Time_of_ut dt u # map (?T (u + ?step)) [0..<k]"
        unfolding shift
        by (simp add: upt_conv_Cons map_Suc_upt [symmetric] del: upt_Suc)
      with k(1) have a: "sampled st = sampled st0 @ map (?T u) [0..<Suc k]" by simp
      have b: "\<forall>i<Suc k. tt (?T u i) < tt stop"
      proof (intro allI impI)
        fix i assume "i < Suc k"
        show "tt (?T u i) < tt stop"
        proof (cases i)
          case 0
          with True show ?thesis by simp
        next
          case (Suc j)
          with \<open>i < Suc k\<close> k(2) have "tt (?T (u + ?step) j) < tt stop" by simp
          with Suc show ?thesis unfolding shift by simp
        qed
      qed
      from a b show ?thesis by (intro exI [of _ "Suc k"] conjI)
    qed
  qed
qed

lemma window_member:
  assumes sm: "strict_mono (TerrestrialTime dt)"
    and lo: "- 109572.5 \<le> u" and guard: "tt (Time_of_ut dt u) < tt (MakeTime dt 2200 1 1 0 0 0)"
  shows "in_model_window dt (Time_of_ut dt u)"
proof -
  from sm have m: "mono (TerrestrialTime dt)" by (rule strict_mono_mono)
  from guard have g: "TerrestrialTime dt u < TerrestrialTime dt 73048.5"
    by (simp add: MakeTime_2200 Time_of_ut_def)
  have "u < 73048.5"
  proof (rule ccontr)
    assume "\<not> u < 73048.5"
    then have "73048.5 \<le> u" by simp
    with m have "TerrestrialTime dt 73048.5 \<le> TerrestrialTime dt u" by (rule monoD)
    with g show False by simp
  qed
  moreover from m lo have "TerrestrialTime dt (- 109572.5) \<le> TerrestrialTime dt u" by (rule monoD)
  ultimately show ?thesis using lo g
    by (simp add: in_model_window_def MakeTime_1700 MakeTime_2200 Time_of_ut_def)
qed

lemma AstroCheck_sampled:
  assumes "AstroCheck fuel lib dt can_open = Some st"
  shows "\<exists>k. sampled st = map (\<lambda>i. Time_of_ut dt (- 109572.5 + real i * (10 + PI / 100))) [0..<k] \<and>
         (\<forall>i<k. tt (Time_of_ut dt (- 109572.5 + real i * (10 + PI / 100))) < tt (MakeTime dt 2200 1 1 0 0 0))"
proof (cases can_open)
  case False
  with assms have "sampled st = []" by (auto simp: AstroCheck_def)
  then show ?thesis by (intro exI [of _ "0::nat"]) simp
next
  case True
  with assms loop_sampled [of fuel lib dt "MakeObserver lib 29 (-81) 10" "- 109572.5"
      "MakeTime dt 2200 1 1 0 0 0" "\<lparr>run_error = 1, outfile = [observer_line (MakeObserver lib 29 (-81) 10)], sampled = []\<rparr>" st]
  show ?thesis
    by (simp add: AstroCheck_def Let_def MakeTime_1700)
qed

subsection \<open>A library that succeeds inside the window finishes the run\<close>

lemma sample_succeeds:
  assumes cover: "providers_cover_window lib dt" and w: "in_model_window dt time"
  shows "\<exists>out1. AstroCheck_sample lib observer time out = (0, out1)"
proof -
  from cover w have h: "\<And>body. vec_status (HelioVector lib body time) = ASTRO_SUCCESS"
    and g: "\<And>a. vec_status (GeoVector lib BODY_MOON time a) = ASTRO_SUCCESS"
    and q: "\<And>body observer ofdate a. body \<noteq> BODY_EARTH \<Longrightarrow>
              equ_status (Equator lib body time observer ofdate a) = ASTRO_SUCCESS"
    by (simp_all add: providers_cover_window_def)
  have sky: "\<exists>out1. AstroCheck_sky lib observer time body name out0 = (0, out1)"
    if "body \<noteq> BODY_EARTH" for body name out0
    using q [OF that] by (simp add: AstroCheck_sky_def Let_def CheckEquator_def)
  have body: "\<exists>out1. AstroCheck_body lib observer time body out0 = (0, out1)" for body out0
    using h [of body] sky [of body] by (simp add: AstroCheck_body_def Let_def CheckVector_def)
  have bodies: "\<exists>out1. AstroCheck_bodies lib observer time bs out0 = (0, out1)" for bs out0
  proof (induction bs arbitrary: out0)
    case Nil
    then show ?case by simp
  next
    case (Cons b bs)
    from body [of b out0] obtain o1 where "AstroCheck_body lib observer time b out0 = (0, o1)" by blast
    with Cons [of o1] show ?case by simp
  qed
  from bodies [of bodylist out] obtain o1 where
    "AstroCheck_bodies lib observer time bodylist out = (0, o1)" by blast
  then show ?thesis
    using g [of 0] sky [of BODY_MOON]
    by (simp add: AstroCheck_sample_def Let_def CheckVector_def)
qed

lemma loop_finishes:
  assumes sm: "strict_mono (TerrestrialTime dt)" and cover: "providers_cover_window lib dt"
  shows "- 109572.5 \<le> u \<Longrightarrow> 73048.5 - u \<le> real n * (10 + PI / 100) \<Longrightarrow>
     \<exists>st. AstroCheck_loop (Suc n) lib dt observer (Time_of_ut dt u) (MakeTime dt 2200 1 1 0 0 0) st0 = Some st \<and>
          (run_error st = 0 \<or> st = st0 \<and> \<not> tt (Time_of_ut dt u) < tt (MakeTime dt 2200 1 1 0 0 0))"
proof (induction n arbitrary: u st0)
  case 0
  then have "73048.5 \<le> u" by simp
  with strict_mono_mono [OF sm] have "TerrestrialTime dt 73048.5 \<le> TerrestrialTime dt u"
    by (rule monoD)
  then have "\<not> tt (Time_of_ut dt u) < tt (MakeTime dt 2200 1 1 0 0 0)"
    by (simp add: MakeTime_2200 Time_of_ut_def)
  then show ?case by simp
next
  case (Suc n)
  let ?stop = "MakeTime dt 2200 1 1 0 0 0"
  show ?case
  proof (cases "tt (Time_of_ut dt u) < tt ?stop")
    case False
    then show ?thesis by simp
  next
    case True
    from window_member [OF sm Suc.prems(1) True] have w: "in_model_window dt (Time_of_ut dt u)" .
    from sample_succeeds [OF cover w] obtain out1 where
      s: "AstroCheck_sample lib observer (Time_of_ut dt u) (outfile st0) = (0, out1)" by blast
    let ?st1 = "\<lparr>run_error = 0, outfile = out1, sampled = sampled st0 @ [Time_of_ut dt u]\<rparr>"
    have lo: "- 109572.5 \<le> u + (10 + PI / 100)" using Suc.prems(1) PI_pos by simp
    have hi: "73048.5 - (u + (10 + PI / 100)) \<le> real n * (10 + PI / 100)"
      using Suc.prems(2) by (rule step_bound)
    from Suc.IH [OF lo hi, of ?st1] obtain st where
      st: "AstroCheck_loop (Suc n) lib dt observer (Time_of_ut dt (u + (10 + PI / 100))) ?stop ?st1 = Some st"
        "run_error st = 0 \<or> st = ?st1" by blast
    from st(2) have "run_error st = 0" by auto
    moreover have "AstroCheck_loop (Suc (Suc n)) lib dt observer (Time_of_ut dt u) ?stop st0 = Some st"
      using True s st(1)
      by (subst AstroCheck_loop.simps(2)) (simp add: AddDays_Time_of_ut del: AstroCheck_loop.simps)
    ultimately show ?thesis by blast
  qed
qed

lemma AstroCheck_finishes:
  assumes sm: "strict_mono (TerrestrialTime dt)" and cover: "providers_cover_window lib dt"
  shows "\<exists>fuel st. AstroCheck fuel lib dt True = Some st \<and> run_error st = 0"
proof -
  let ?st0 = "\<lparr>run_error = 1, outfile = [observer_line (MakeObserver lib 29 (-81) 10)], sampled = []\<rparr>"
  obtain n :: nat where n: "(73048.5 + 109572.5) / (10 + PI / 100) \<le> real n"
    using real_arch_simple by blast
  then have "73048.5 - (- 109572.5) \<le> real n * (10 + PI / 100)"
    using PI_pos by (simp add: pos_divide_le_eq)
  from loop_finishes [OF sm cover _ this, of "MakeObserver lib 29 (-81) 10" ?st0]
  obtain st where st: "AstroCheck_loop (Suc n) lib dt (MakeObserver lib 29 (-81) 10) (Time_of_ut dt (- 109572.5))
        (MakeTime dt 2200 1 1 0 0 0) ?st0 = Some st"
     "run_error st = 0 \<or> st = ?st0 \<and> \<not> tt (Time_of_ut dt (- 109572.5)) < tt (MakeTime dt 2200 1 1 0 0 0)"
    by auto
  have "TerrestrialTime dt (- 109572.5) < TerrestrialTime dt 73048.5"
    using sm by (rule strict_monoD) simp
  then have "tt (Time_of_ut dt (- 109572.5)) < tt (MakeTime dt 2200 1 1 0 0 0)"
    by (simp add: MakeTime_2200 Time_of_ut_def)
  with st(2) have "run_error st = 0" by simp
  moreover from st(1) have "AstroCheck (Suc n) lib dt True = Some st"
    by (simp add: AstroCheck_def Let_def MakeTime_1700 del: AstroCheck_loop.simps)
  ultimately show ?thesis by blast
qed

lemma example_lib_covers: "providers_cover_window (example_lib 73048.5) dt"
  by (simp add: providers_cover_window_def in_model_window_def example_lib_def example_status_def
      MakeTime_2200 Time_of_ut_def)

lemma const_dt_strict_mono: "strict_mono (TerrestrialTime (\<lambda>u. 69))"
  by (simp add: strict_mono_def TerrestrialTime_def)

lemma short_run:
  "\<exists>st. AstroCheck 3 (example_lib (- 109555)) (\<lambda>u. 69) True = Some st \<and>
        run_error st = 1 \<and> length (sampled st) = 3 \<and> length (outfile st) = 43"
  by (simp add: AstroCheck_def MakeTime_1700 MakeTime_2200 numeral_3_eq_3
     AstroCheck_sample_def bodylist_def AstroCheck_body_def AstroCheck_sky_def Let_def
     CheckVector_def CheckEquator_def example_lib_def example_status_def Time_of_ut_def
     AddDays_def TerrestrialTime_def PI_def)

text \<open>
  Claim C9. The loop of \<open>AstroCheck\<close> starts at \<open>MakeTime(1700, 1, 1, 0, 0, 0)\<close>,
  passes from each sampled time to the next by \<open>AddDays\<close> with \<open>10 + PI/100\<close> days,
  and samples a time only while its \<open>tt\<close> is strictly before that of
  \<open>MakeTime(2200, 1, 1, 0, 0, 0)\<close>. When \<open>tt\<close> is a strictly increasing function of
  \<open>ut\<close>, every sampled time therefore lies inside the window of the models, and with
  providers that succeed inside the window the run takes no failure branch: it finishes
  with \<open>error = 0\<close>.
\<close>

theorem AstroCheck_samples_inside_window:
  "(AstroCheck fuel lib dt can_open = Some st \<longrightarrow>
      (sampled st \<noteq> [] \<longrightarrow> hd (sampled st) = MakeTime dt 1700 1 1 0 0 0) \<and>
      (\<forall>i. Suc i < length (sampled st) \<longrightarrow>
           sampled st ! Suc i = AddDays dt (sampled st ! i) (10 + PI / 100)) \<and>
      (\<forall>time \<in> set (sampled st). tt time < tt (MakeTime dt 2200 1 1 0 0 0)) \<and>
      (strict_mono (TerrestrialTime dt) \<longrightarrow>
         (\<forall>time \<in> set (sampled st). in_model_window dt time))) \<and>
   (strict_mono (TerrestrialTime dt) \<and> providers_cover_window lib dt \<longrightarrow>
      (\<exists>n r. AstroCheck n lib dt True = Some r \<and> run_error r = 0))"
proof -
  let ?T = "\<lambda>i. Time_of_ut dt (- 109572.5 + real i * (10 + PI / 100))"
  let ?stop = "MakeTime dt 2200 1 1 0 0 0"
  have run: "(sampled st \<noteq> [] \<longrightarrow> hd (sampled st) = MakeTime dt 1700 1 1 0 0 0) \<and>
      (\<forall>i. Suc i < length (sampled st) \<longrightarrow>
           sampled st ! Suc i = AddDays dt (sampled st ! i) (10 + PI / 100)) \<and>
      (\<forall>time \<in> set (sampled st). tt time < tt ?stop) \<and>
      (strict_mono (TerrestrialTime dt) \<longrightarrow>
         (\<forall>time \<in> set (sampled st). in_model_window dt time))"
    if "AstroCheck fuel lib dt can_open = Some st"
  proof -
    from AstroCheck_sampled [OF that] obtain k where
      s: "sampled st = map ?T [0..<k]" and g: "\<forall>i<k. tt (?T i) < tt ?stop" by blast
    have first: "hd (sampled st) = MakeTime dt 1700 1 1 0 0 0" if "sampled st \<noteq> []"
    proof -
      from that s have "0 < k" by auto
      then have "hd (map ?T [0..<k]) = ?T 0" by (simp add: hd_map upt_conv_Cons)
      with s show ?thesis by (simp add: MakeTime_1700)
    qed
    have step: "sampled st ! Suc i = AddDays dt (sampled st ! i) (10 + PI / 100)"
      if "Suc i < length (sampled st)" for i
    proof -
      from that s have "Suc i < k" by simp
      then have "sampled st ! Suc i = ?T (Suc i)" "sampled st ! i = ?T i" using s by simp_all
      then show ?thesis
        by (simp only: AddDays_Time_of_ut step_shift [symmetric] add.assoc)
           (simp add: add.commute add.left_commute)
    qed
    have guard: "tt time < tt ?stop" if "time \<in> set (sampled st)" for time
      using that s g by auto
    have window: "in_model_window dt time"
      if sm: "strict_mono (TerrestrialTime dt)" and m: "time \<in> set (sampled st)" for time
    proof -
      from m s obtain i where i: "i < k" "time = ?T i" by auto
      have "0 \<le> real i * (10 + PI / 100)" using PI_pos by simp
      then have "- 109572.5 \<le> - 109572.5 + real i * (10 + PI / 100)" by simp
      from window_member [OF sm this] g i show ?thesis by simp
    qed
    from first step guard window show ?thesis by blast
  qed
  moreover have "\<exists>n r. AstroCheck n lib dt True = Some r \<and> run_error r = 0"
    if "strict_mono (TerrestrialTime dt) \<and> providers_cover_window lib dt"
    using that AstroCheck_finishes [of dt lib] by blast
  ultimately show ?thesis by blast
qed

theorem AstroCheck_samples_inside_window_witness:
  "strict_mono (TerrestrialTime (\<lambda>u. 69)) \<and>
   providers_cover_window (example_lib 73048.5) (\<lambda>u. 69) \<and>
   (\<exists>n r. AstroCheck n (example_lib 73048.5) (\<lambda>u. 69) True = Some r \<and> run_error r = 0 \<and>
          (\<forall>time \<in> set (sampled r). in_model_window (\<lambda>u. 69) time)) \<and>
   (\<exists>st. AstroCheck 3 (example_lib (- 109555)) (\<lambda>u. 69) True = Some st \<and>
         length (sampled st) = 3 \<and>
         hd (sampled st) = MakeTime (\<lambda>u. 69) 1700 1 1 0 0 0 \<and>
         sampled st ! 1 = AddDays (\<lambda>u. 69) (sampled st ! 0) (10 + PI / 100) \<and>
         sampled st ! 2 = AddDays (\<lambda>u. 69) (sampled st ! 1) (10 + PI / 100) \<and>
         (\<forall>time \<in> set (sampled st). in_model_window (\<lambda>u. 69) time))"
proof -
  let ?dt = "\<lambda>u::real. 69::real"
  have sm: "strict_mono (TerrestrialTime ?dt)" by (rule const_dt_strict_mono)
  have cov: "providers_cover_window (example_lib 73048.5) ?dt" by (rule example_lib_covers)
  from AstroCheck_samples_inside_window [of 0 "example_lib 73048.5" ?dt True
      "\<lparr>run_error = 0, outfile = [], sampled = []\<rparr>"] sm cov
  obtain n r where r: "AstroCheck n (example_lib 73048.5) ?dt True = Some r" "run_error r = 0"
    by blast
  from AstroCheck_samples_inside_window [of n "example_lib 73048.5" ?dt True r] r(1) sm
  have full: "\<forall>time \<in> set (sampled r). in_model_window ?dt time" by blast
  from short_run obtain st where
    st: "AstroCheck 3 (example_lib (- 109555)) ?dt True = Some st" "length (sampled st) = 3"
    by blast
  from st(2) have ne: "sampled st \<noteq> []" by auto
  from AstroCheck_samples_inside_window [of 3 "example_lib (- 109555)" ?dt True st] st(1) sm
  have p: "sampled st \<noteq> [] \<longrightarrow> hd (sampled st) = MakeTime ?dt 1700 1 1 0 0 0"
    "\<forall>i. Suc i < length (sampled st) \<longrightarrow>
           sampled st ! Suc i = AddDays ?dt (sampled st ! i) (10 + PI / 100)"
    "\<forall>time \<in> set (sampled st). in_model_window ?dt time"
    by blast+
  from p(2) st(2) have "sampled st ! Suc 0 = AddDays ?dt (sampled st ! 0) (10 + PI / 100)"
    "sampled st ! Suc (Suc 0) = AddDays ?dt (sampled st ! Suc 0) (10 + PI / 100)"
    by simp_all
  then have steps: "sampled st ! 1 = AddDays ?dt (sampled st ! 0) (10 + PI / 100)"
    "sampled st ! 2 = AddDays ?dt (sampled st ! 1) (10 + PI / 100)"
    by (simp_all add: numeral_2_eq_2)
  from sm cov r full st p(1,3) ne steps show ?thesis by blast
qed

subsection \<open>The lines written for one sampled time\<close>

lemma sky_result:
  "AstroCheck_sky lib observer time body name out = (e, out1) \<Longrightarrow>
     (e = 0 \<and> (\<exists>r. out1 = out @ [r] \<and> record_head r = (CHR ''s'', name))) \<or>
     (e \<noteq> 0 \<and> out1 = out)"
  by (auto simp: AstroCheck_sky_def Let_def CheckEquator_def split: if_splits)

lemma body_result:
  assumes "AstroCheck_body lib observer time body out = (e, out1)"
  shows "\<exists>new. out1 = out @ new \<and>
           set (map record_head new) \<subseteq> set (body_layout lib body) \<and>
           (e = 0 \<longrightarrow> map record_head new = body_layout lib body)"
proof -
  let ?pos = "HelioVector lib body time"
  let ?v = "V_rec (BodyName lib body) (tt (vec_t ?pos)) (vec_x ?pos) (vec_y ?pos) (vec_z ?pos)"
  show ?thesis
  proof (cases "CheckVector ?pos = 0")
    case False
    with assms have "e \<noteq> 0" "out1 = out" by (simp_all add: AstroCheck_body_def Let_def)
    then show ?thesis by simp
  next
    case ok: True
    show ?thesis
    proof (cases "body = BODY_EARTH")
      case True
      with assms ok have "e = 0" "out1 = out @ [?v]" by (simp_all add: AstroCheck_body_def Let_def)
      with True show ?thesis by (simp add: body_layout_def)
    next
      case False
      with assms ok
      have "AstroCheck_sky lib observer time body (BodyName lib body) (out @ [?v]) = (e, out1)"
        by (simp add: AstroCheck_body_def Let_def)
      from sky_result [OF this] show ?thesis
      proof
        assume "e = 0 \<and> (\<exists>r. out1 = (out @ [?v]) @ [r] \<and> record_head r = (CHR ''s'', BodyName lib body))"
        then obtain r where "e = 0" "out1 = out @ [?v, r]" "record_head r = (CHR ''s'', BodyName lib body)"
          by auto
        with False show ?thesis by (simp add: body_layout_def)
      next
        assume "e \<noteq> 0 \<and> out1 = out @ [?v]"
        then show ?thesis by (simp add: body_layout_def)
      qed
    qed
  qed
qed

lemma bodies_result:
  "AstroCheck_bodies lib observer time bodies out = (e, out1) \<Longrightarrow>
     \<exists>new. out1 = out @ new \<and>
           set (map record_head new) \<subseteq> set (concat (map (body_layout lib) bodies)) \<and>
           (e = 0 \<longrightarrow> map record_head new = concat (map (body_layout lib) bodies))"
proof (induction bodies arbitrary: out)
  case Nil
  then show ?case by simp
next
  case (Cons body rest)
  obtain e0 out0 where b: "AstroCheck_body lib observer time body out = (e0, out0)"
    by (cases "AstroCheck_body lib observer time body out")
  from body_result [OF b] obtain new0 where n0: "out0 = out @ new0"
      "set (map record_head new0) \<subseteq> set (body_layout lib body)"
      "e0 = 0 \<longrightarrow> map record_head new0 = body_layout lib body"
    by blast
  show ?case
  proof (cases "e0 = 0")
    case True
    with Cons.prems b have "AstroCheck_bodies lib observer time rest out0 = (e, out1)" by simp
    from Cons.IH [OF this] obtain new1 where n1: "out1 = out0 @ new1"
      "set (map record_head new1) \<subseteq> set (concat (map (body_layout lib) rest))"
      "e = 0 \<longrightarrow> map record_head new1 = concat (map (body_layout lib) rest)"
      by blast
    have "out1 = out @ (new0 @ new1)" using n0(1) n1(1) by simp
    moreover have "set (map record_head (new0 @ new1)) \<subseteq> set (concat (map (body_layout lib) (body # rest)))"
      using n0(2) n1(2) by (auto simp del: set_map set_concat)
    moreover have "e = 0 \<longrightarrow> map record_head (new0 @ new1) = concat (map (body_layout lib) (body # rest))"
      using n0(3) n1(3) True by simp
    ultimately show ?thesis by blast
  next
    case False
    with Cons.prems b have "e = e0" "out1 = out0" by simp_all
    with n0 False show ?thesis by (auto simp del: set_map set_concat)
  qed
qed

lemma sample_result:
  assumes "AstroCheck_sample lib observer time out = (e, out1)"
  shows "\<exists>new. out1 = out @ new \<and>
           set (map record_head new) \<subseteq> set (sample_layout lib) \<and>
           (e = 0 \<longrightarrow> map record_head new = sample_layout lib)"
proof -
  obtain e0 out0 where b: "AstroCheck_bodies lib observer time bodylist out = (e0, out0)"
    by (cases "AstroCheck_bodies lib observer time bodylist out")
  from bodies_result [OF b] obtain new0 where n0: "out0 = out @ new0"
      "set (map record_head new0) \<subseteq> set (concat (map (body_layout lib) bodylist))"
      "e0 = 0 \<longrightarrow> map record_head new0 = concat (map (body_layout lib) bodylist)"
    by blast
  show ?thesis
  proof (cases "e0 = 0")
    case False
    with assms b have "e = e0" "out1 = out0" by (simp_all add: AstroCheck_sample_def)
    with n0 False show ?thesis by (auto simp: sample_layout_def simp del: set_map set_concat)
  next
    case True
    let ?pos = "GeoVector lib BODY_MOON time 0"
    let ?v = "V_rec ''GM'' (tt (vec_t ?pos)) (vec_x ?pos) (vec_y ?pos) (vec_z ?pos)"
    show ?thesis
    proof (cases "CheckVector ?pos = 0")
      case False
      with assms b True have "e = CheckVector ?pos" "out1 = out0"
        by (simp_all add: AstroCheck_sample_def Let_def)
      with n0 False show ?thesis by (auto simp: sample_layout_def simp del: set_map set_concat)
    next
      case ok: True
      from assms b True ok
      have "AstroCheck_sky lib observer time BODY_MOON ''GM'' (out0 @ [?v]) = (e, out1)"
        by (simp add: AstroCheck_sample_def Let_def)
      from sky_result [OF this] show ?thesis
      proof
        assume "e = 0 \<and> (\<exists>r. out1 = (out0 @ [?v]) @ [r] \<and> record_head r = (CHR ''s'', ''GM''))"
        then obtain r where r: "e = 0" "out1 = out0 @ [?v, r]" "record_head r = (CHR ''s'', ''GM'')"
          by auto
        have "out1 = out @ (new0 @ [?v, r])" using r n0 by simp
        moreover have "map record_head (new0 @ [?v, r]) = sample_layout lib"
          using n0(3) True r by (simp add: sample_layout_def)
        ultimately show ?thesis by (metis order_refl)
      next
        assume f: "e \<noteq> 0 \<and> out1 = out0 @ [?v]"
        have "out1 = out @ (new0 @ [?v])" using f n0 by simp
        moreover have "set (map record_head (new0 @ [?v])) \<subseteq> set (sample_layout lib)"
          using n0(2) by (auto simp: sample_layout_def simp del: set_map set_concat)
        ultimately show ?thesis using f by blast
      qed
    qed
  qed
qed

lemma loop_layout:
  "AstroCheck_loop n lib dt observer time stop st0 = Some st \<Longrightarrow>
     \<exists>new k. outfile st = outfile st0 @ new \<and> length (sampled st) = length (sampled st0) + k \<and>
        set (map record_head new) \<subseteq> set (sample_layout lib) \<and>
        (run_error st = 0 \<longrightarrow> map record_head new = concat (replicate k (sample_layout lib))) \<and>
        (run_error st = 0 \<longrightarrow> run_error st0 = 0 \<or> 0 < k)"
proof (induction n arbitrary: time st0)
  case 0
  then show ?case by simp
next
  case (Suc n)
  show ?case
  proof (cases "tt time < tt stop")
    case False
    with Suc.prems have "st = st0" by simp
    then have "outfile st = outfile st0 @ [] \<and> length (sampled st) = length (sampled st0) + 0 \<and>
        set (map record_head []) \<subseteq> set (sample_layout lib) \<and>
        (run_error st = 0 \<longrightarrow> map record_head [] = concat (replicate 0 (sample_layout lib))) \<and>
        (run_error st = 0 \<longrightarrow> run_error st0 = 0 \<or> 0 < (0::nat))"
      by simp
    then show ?thesis by (intro exI [of _ "[]"] exI [of _ "0::nat"])
  next
    case True
    obtain e out1 where s: "AstroCheck_sample lib observer time (outfile st0) = (e, out1)"
      by (cases "AstroCheck_sample lib observer time (outfile st0)")
    from sample_result [OF s] obtain new0 where n0: "out1 = outfile st0 @ new0"
        "set (map record_head new0) \<subseteq> set (sample_layout lib)"
        "e = 0 \<longrightarrow> map record_head new0 = sample_layout lib"
      by blast
    let ?st1 = "\<lparr>run_error = e, outfile = out1, sampled = sampled st0 @ [time]\<rparr>"
    show ?thesis
    proof (cases "e = 0")
      case False
      with Suc.prems True s have "st = ?st1" by simp
      with n0 False have "outfile st = outfile st0 @ new0 \<and>
          length (sampled st) = length (sampled st0) + 1 \<and>
          set (map record_head new0) \<subseteq> set (sample_layout lib) \<and>
          (run_error st = 0 \<longrightarrow> map record_head new0 = concat (replicate 1 (sample_layout lib))) \<and>
          (run_error st = 0 \<longrightarrow> run_error st0 = 0 \<or> 0 < (1::nat))"
        by simp
      then show ?thesis by (intro exI [of _ new0] exI [of _ "1::nat"])
    next
      case ok: True
      with Suc.prems True s
      have "AstroCheck_loop n lib dt observer (AddDays dt time (10 + PI / 100)) stop ?st1 = Some st"
        by simp
      from Suc.IH [OF this] obtain new1 k where n1: "outfile st = out1 @ new1"
          "length (sampled st) = length (sampled st0) + 1 + k"
          "set (map record_head new1) \<subseteq> set (sample_layout lib)"
          "run_error st = 0 \<longrightarrow> map record_head new1 = concat (replicate k (sample_layout lib))"
        by auto
      have "outfile st = outfile st0 @ (new0 @ new1)" using n0(1) n1(1) by simp
      moreover have "length (sampled st) = length (sampled st0) + Suc k" using n1(2) by simp
      moreover have "set (map record_head (new0 @ new1)) \<subseteq> set (sample_layout lib)"
        using n0(2) n1(3) by (auto simp del: set_map)
      moreover have "run_error st = 0 \<longrightarrow>
          map record_head (new0 @ new1) = concat (replicate (Suc k) (sample_layout lib))"
        using n0(3) n1(4) ok by simp
      moreover have "run_error st = 0 \<longrightarrow> run_error st0 = 0 \<or> 0 < Suc k" by simp
      ultimately show ?thesis by blast
    qed
  qed
qed

lemma sample_layout_explicit:
  "sample_layout lib =
     [(CHR ''v'', BodyName lib BODY_SUN), (CHR ''s'', BodyName lib BODY_SUN),
      (CHR ''v'', BodyName lib BODY_MERCURY), (CHR ''s'', BodyName lib BODY_MERCURY),
      (CHR ''v'', BodyName lib BODY_VENUS), (CHR ''s'', BodyName lib BODY_VENUS),
      (CHR ''v'', BodyName lib BODY_EARTH),
      (CHR ''v'', BodyName lib BODY_MARS), (CHR ''s'', BodyName lib BODY_MARS),
      (CHR ''v'', BodyName lib BODY_JUPITER), (CHR ''s'', BodyName lib BODY_JUPITER),
      (CHR ''v'', BodyName lib BODY_SATURN), (CHR ''s'', BodyName lib BODY_SATURN),
      (CHR ''v'', BodyName lib BODY_URANUS), (CHR ''s'', BodyName lib BODY_URANUS),
      (CHR ''v'', BodyName lib BODY_NEPTUNE), (CHR ''s'', BodyName lib BODY_NEPTUNE),
      (CHR ''v'', BodyName lib BODY_PLUTO), (CHR ''s'', BodyName lib BODY_PLUTO),
      (CHR ''v'', ''GM''), (CHR ''s'', ''GM'')]"
  by (simp add: sample_layout_def body_layout_def bodylist_def)

subsection \<open>The values on the lines\<close>

text \<open>
  What a run has written is an initial part of the expected lines of its sampled times,
  and all of them when no check has failed.
\<close>

lemma sky_value:
  "AstroCheck_sky lib observer time body name out = (e, out1) \<Longrightarrow>
     (e = 0 \<and> out1 = out @ [sky_record lib observer time body name]) \<or> (e \<noteq> 0 \<and> out1 = out)"
  by (auto simp: AstroCheck_sky_def Let_def CheckEquator_def sky_record_def split: if_splits)

lemma body_value:
  assumes "AstroCheck_body lib observer time body out = (e, out1)"
  shows "\<exists>new more. out1 = out @ new \<and> body_records lib observer time body = new @ more \<and>
           (e = 0 \<longrightarrow> more = [])"
proof -
  let ?pos = "HelioVector lib body time"
  let ?v = "helio_record lib time body"
  show ?thesis
  proof (cases "CheckVector ?pos = 0")
    case False
    with assms have "e \<noteq> 0" "out1 = out @ []" by (simp_all add: AstroCheck_body_def Let_def)
    moreover have "body_records lib observer time body = [] @ body_records lib observer time body"
      by simp
    ultimately show ?thesis by blast
  next
    case ok: True
    show ?thesis
    proof (cases "body = BODY_EARTH")
      case True
      with assms ok have "e = 0" "out1 = out @ [?v]"
        by (simp_all add: AstroCheck_body_def Let_def helio_record_def)
      moreover from True have "body_records lib observer time body = [?v] @ []"
        by (simp add: body_records_def)
      ultimately show ?thesis by blast
    next
      case False
      let ?s = "sky_record lib observer time body (BodyName lib body)"
      from False assms ok
      have "AstroCheck_sky lib observer time body (BodyName lib body) (out @ [?v]) = (e, out1)"
        by (simp add: AstroCheck_body_def Let_def helio_record_def)
      from sky_value [OF this] show ?thesis
      proof
        assume "e = 0 \<and> out1 = (out @ [?v]) @ [?s]"
        then have "e = 0" "out1 = out @ [?v, ?s]" by simp_all
        moreover from False have "body_records lib observer time body = [?v, ?s] @ []"
          by (simp add: body_records_def)
        ultimately show ?thesis by blast
      next
        assume "e \<noteq> 0 \<and> out1 = out @ [?v]"
        moreover from False have "body_records lib observer time body = [?v] @ [?s]"
          by (simp add: body_records_def)
        ultimately show ?thesis by blast
      qed
    qed
  qed
qed

lemma bodies_value:
  "AstroCheck_bodies lib observer time bodies out = (e, out1) \<Longrightarrow>
     \<exists>new more. out1 = out @ new \<and>
        concat (map (body_records lib observer time) bodies) = new @ more \<and>
        (e = 0 \<longrightarrow> more = [])"
proof (induction bodies arbitrary: out)
  case Nil
  then show ?case by simp
next
  case (Cons body rest)
  obtain e0 out0 where b: "AstroCheck_body lib observer time body out = (e0, out0)"
    by (cases "AstroCheck_body lib observer time body out")
  from body_value [OF b] obtain new0 more0 where n0: "out0 = out @ new0"
      "body_records lib observer time body = new0 @ more0" "e0 = 0 \<longrightarrow> more0 = []"
    by blast
  show ?case
  proof (cases "e0 = 0")
    case True
    with Cons.prems b have "AstroCheck_bodies lib observer time rest out0 = (e, out1)" by simp
    from Cons.IH [OF this] obtain new1 more1 where n1: "out1 = out0 @ new1"
      "concat (map (body_records lib observer time) rest) = new1 @ more1"
      "e = 0 \<longrightarrow> more1 = []"
      by blast
    have "out1 = out @ (new0 @ new1)" using n0(1) n1(1) by simp
    moreover have "concat (map (body_records lib observer time) (body # rest)) = (new0 @ new1) @ more1"
      using n0(2,3) n1(2) True by simp
    ultimately show ?thesis using n1(3) by blast
  next
    case False
    with Cons.prems b have "e = e0" "out1 = out0" by simp_all
    moreover have "concat (map (body_records lib observer time) (body # rest)) =
        new0 @ (more0 @ concat (map (body_records lib observer time) rest))"
      using n0(2) by simp
    ultimately show ?thesis using n0(1) False by blast
  qed
qed

lemma sample_value:
  assumes "AstroCheck_sample lib observer time out = (e, out1)"
  shows "\<exists>new more. out1 = out @ new \<and> sample_records lib observer time = new @ more \<and>
           (e = 0 \<longrightarrow> more = [])"
proof -
  let ?B = "concat (map (body_records lib observer time) bodylist)"
  let ?v = "geo_moon_record lib time"
  let ?s = "sky_record lib observer time BODY_MOON ''GM''"
  obtain e0 out0 where b: "AstroCheck_bodies lib observer time bodylist out = (e0, out0)"
    by (cases "AstroCheck_bodies lib observer time bodylist out")
  from bodies_value [OF b] obtain new0 more0 where n0: "out0 = out @ new0"
      "?B = new0 @ more0" "e0 = 0 \<longrightarrow> more0 = []"
    by blast
  have sr: "sample_records lib observer time = ?B @ [?v, ?s]"
    by (simp add: sample_records_def)
  show ?thesis
  proof (cases "e0 = 0")
    case False
    with assms b have "e = e0" "out1 = out0" by (simp_all add: AstroCheck_sample_def)
    moreover have "sample_records lib observer time = new0 @ (more0 @ [?v, ?s])"
      using sr n0(2) by simp
    ultimately show ?thesis using n0(1) False by blast
  next
    case True
    with n0 have full: "out0 = out @ ?B" by simp
    let ?pos = "GeoVector lib BODY_MOON time 0"
    show ?thesis
    proof (cases "CheckVector ?pos = 0")
      case False
      with assms b True have "e \<noteq> 0" "out1 = out0"
        by (simp_all add: AstroCheck_sample_def Let_def)
      with full sr show ?thesis by blast
    next
      case ok: True
      from assms b True ok
      have "AstroCheck_sky lib observer time BODY_MOON ''GM'' (out0 @ [?v]) = (e, out1)"
        by (simp add: AstroCheck_sample_def Let_def geo_moon_record_def)
      from sky_value [OF this] show ?thesis
      proof
        assume "e = 0 \<and> out1 = (out0 @ [?v]) @ [?s]"
        with full have "out1 = out @ (?B @ [?v, ?s])" by simp
        moreover have "sample_records lib observer time = (?B @ [?v, ?s]) @ []" using sr by simp
        ultimately show ?thesis by blast
      next
        assume "e \<noteq> 0 \<and> out1 = out0 @ [?v]"
        with full have "e \<noteq> 0" "out1 = out @ (?B @ [?v])" by simp_all
        moreover have "sample_records lib observer time = (?B @ [?v]) @ [?s]" using sr by simp
        ultimately show ?thesis by blast
      qed
    qed
  qed
qed

lemma loop_value:
  "AstroCheck_loop n lib dt observer time stop st0 = Some st \<Longrightarrow>
     \<exists>ts new more. sampled st = sampled st0 @ ts \<and> outfile st = outfile st0 @ new \<and>
        concat (map (sample_records lib observer) ts) = new @ more \<and>
        (run_error st = 0 \<longrightarrow> more = [])"
proof (induction n arbitrary: time st0)
  case 0
  then show ?case by simp
next
  case (Suc n)
  show ?case
  proof (cases "tt time < tt stop")
    case False
    with Suc.prems have "st = st0" by simp
    then have "sampled st = sampled st0 @ [] \<and> outfile st = outfile st0 @ [] \<and>
        concat (map (sample_records lib observer) []) = [] @ [] \<and> (run_error st = 0 \<longrightarrow> [] = [])"
      by simp
    then show ?thesis by blast
  next
    case True
    obtain e out1 where s: "AstroCheck_sample lib observer time (outfile st0) = (e, out1)"
      by (cases "AstroCheck_sample lib observer time (outfile st0)")
    from sample_value [OF s] obtain new0 more0 where n0: "out1 = outfile st0 @ new0"
        "sample_records lib observer time = new0 @ more0" "e = 0 \<longrightarrow> more0 = []"
      by blast
    let ?st1 = "\<lparr>run_error = e, outfile = out1, sampled = sampled st0 @ [time]\<rparr>"
    show ?thesis
    proof (cases "e = 0")
      case False
      with Suc.prems True s have "st = ?st1" by simp
      with n0 False have "sampled st = sampled st0 @ [time] \<and> outfile st = outfile st0 @ new0 \<and>
          concat (map (sample_records lib observer) [time]) = new0 @ more0 \<and>
          (run_error st = 0 \<longrightarrow> more0 = [])"
        by simp
      then show ?thesis by blast
    next
      case ok: True
      with Suc.prems True s
      have "AstroCheck_loop n lib dt observer (AddDays dt time (10 + PI / 100)) stop ?st1 = Some st"
        by simp
      from Suc.IH [OF this] obtain ts new1 more1 where n1:
          "sampled st = (sampled st0 @ [time]) @ ts" "outfile st = out1 @ new1"
          "concat (map (sample_records lib observer) ts) = new1 @ more1"
          "run_error st = 0 \<longrightarrow> more1 = []"
        by auto
      have "sampled st = sampled st0 @ (time # ts)" using n1(1) by simp
      moreover have "outfile st = outfile st0 @ (new0 @ new1)" using n0(1) n1(2) by simp
      moreover have "concat (map (sample_records lib observer) (time # ts)) = (new0 @ new1) @ more1"
        using n0(2,3) n1(3) ok by simp
      ultimately show ?thesis using n1(4) by blast
    qed
  qed
qed

lemma AstroCheck_value:
  assumes "AstroCheck fuel lib dt True = Some st"
  shows "(\<exists>more. expected_output lib (sampled st) = outfile st @ more) \<and>
         (run_error st = 0 \<longrightarrow> outfile st = expected_output lib (sampled st))"
proof -
  let ?obs = "MakeObserver lib 29 (-81) 10"
  let ?st0 = "\<lparr>run_error = 1, outfile = [observer_line ?obs], sampled = []\<rparr>"
  from assms have "AstroCheck_loop fuel lib dt ?obs
      (MakeTime dt 1700 1 1 0 0 0) (MakeTime dt 2200 1 1 0 0 0) ?st0 = Some st"
    by (simp add: AstroCheck_def Let_def)
  from loop_value [OF this] obtain ts new more where
    v: "sampled st = ts" "outfile st = [observer_line ?obs] @ new"
       "concat (map (sample_records lib ?obs) ts) = new @ more"
       "run_error st = 0 \<longrightarrow> more = []"
    by auto
  then have "expected_output lib (sampled st) = outfile st @ more"
    by (simp add: expected_output_def)
  with v(4) show ?thesis by auto
qed

lemma sample_records_layout:
  "map record_head (sample_records lib observer time) = sample_layout lib"
  by (simp add: sample_records_def sample_layout_def body_records_def body_layout_def
      helio_record_def geo_moon_record_def sky_record_def bodylist_def)

lemma short_run_output:
  "\<exists>st. AstroCheck 3 (example_lib (- 109555)) (\<lambda>u. 69) True = Some st \<and>
        run_error st = 1 \<and> length (sampled st) = 3 \<and>
        outfile st = expected_output (example_lib (- 109555)) (take 2 (sampled st)) \<and>
        take 3 (outfile st) =
          [O_rec 29 (- 81) 10,
           V_rec ''Sun'' (- 109572.5 + 69 / 86400) 1 2 3,
           S_rec ''Sun'' (- 109572.5 + 69 / 86400) (- 109572.5) 7 9 11 108 210]"
  by (simp add: AstroCheck_def MakeTime_1700 MakeTime_2200 numeral_3_eq_3 numeral_2_eq_2
     AstroCheck_sample_def bodylist_def AstroCheck_body_def AstroCheck_sky_def Let_def
     CheckVector_def CheckEquator_def example_lib_def example_status_def Time_of_ut_def
     AddDays_def TerrestrialTime_def PI_def expected_output_def sample_records_def
     body_records_def helio_record_def geo_moon_record_def sky_record_def observer_line_def)

text \<open>
  Claim C10. When the output file can be opened, the output of \<open>AstroCheck\<close> starts
  with the one \<open>o\<close> line of the observer and is an initial part of the expected
  output for the sampled times; every other line is a \<open>v\<close> or \<open>s\<close> line of the
  layout of a sample. In a run that ends without error the output is the expected
  output: every sampled time contributes a \<open>v\<close> line with the heliocentric vector of
  each of the ten bodies of the list, the Earth included, each but the Earth's followed
  by the \<open>s\<close> line with the body's sky coordinates, then the \<open>v\<close> line with the
  geocentric vector of the Moon and its \<open>s\<close> line, both under the name GM. An \<open>s\<close>
  line carries the name GM or the name of a body of the list other than the Earth. Such
  a run exists for every library whose providers succeed inside the window.
\<close>

theorem AstroCheck_output_layout:
  "(AstroCheck fuel lib dt True = Some st \<longrightarrow>
      (\<exists>more. expected_output lib (sampled st) = outfile st @ more) \<and>
      (run_error st = 0 \<longrightarrow> sampled st \<noteq> [] \<and> outfile st = expected_output lib (sampled st)) \<and>
      (\<exists>rest. outfile st = observer_line (MakeObserver lib 29 (-81) 10) # rest \<and>
         set (map record_head rest) \<subseteq> set (sample_layout lib) \<and>
         (run_error st = 0 \<longrightarrow>
            sampled st \<noteq> [] \<and>
            map record_head rest = concat (replicate (length (sampled st)) (sample_layout lib))))) \<and>
   (strict_mono (TerrestrialTime dt) \<and> providers_cover_window lib dt \<longrightarrow>
      (\<exists>n r. AstroCheck n lib dt True = Some r \<and> run_error r = 0 \<and> sampled r \<noteq> [] \<and>
             outfile r = expected_output lib (sampled r))) \<and>
   map record_head (sample_records lib observer time) = sample_layout lib \<and>
   sample_layout lib =
     [(CHR ''v'', BodyName lib BODY_SUN), (CHR ''s'', BodyName lib BODY_SUN),
      (CHR ''v'', BodyName lib BODY_MERCURY), (CHR ''s'', BodyName lib BODY_MERCURY),
      (CHR ''v'', BodyName lib BODY_VENUS), (CHR ''s'', BodyName lib BODY_VENUS),
      (CHR ''v'', BodyName lib BODY_EARTH),
      (CHR ''v'', BodyName lib BODY_MARS), (CHR ''s'', BodyName lib BODY_MARS),
      (CHR ''v'', BodyName lib BODY_JUPITER), (CHR ''s'', BodyName lib BODY_JUPITER),
      (CHR ''v'', BodyName lib BODY_SATURN), (CHR ''s'', BodyName lib BODY_SATURN),
      (CHR ''v'', BodyName lib BODY_URANUS), (CHR ''s'', BodyName lib BODY_URANUS),
      (CHR ''v'', BodyName lib BODY_NEPTUNE), (CHR ''s'', BodyName lib BODY_NEPTUNE),
      (CHR ''v'', BodyName lib BODY_PLUTO), (CHR ''s'', BodyName lib BODY_PLUTO),
      (CHR ''v'', ''GM''), (CHR ''s'', ''GM'')] \<and>
   (\<forall>name. (CHR ''s'', name) \<in> set (sample_layout lib) \<longrightarrow>
        name = ''GM'' \<or> (\<exists>body \<in> set bodylist. body \<noteq> BODY_EARTH \<and> name = BodyName lib body)) \<and>
   (\<forall>name. (CHR ''o'', name) \<notin> set (sample_layout lib))"
proof -
  have run: "\<exists>rest. outfile st = observer_line (MakeObserver lib 29 (-81) 10) # rest \<and>
         set (map record_head rest) \<subseteq> set (sample_layout lib) \<and>
         (run_error st = 0 \<longrightarrow>
            sampled st \<noteq> [] \<and>
            map record_head rest = concat (replicate (length (sampled st)) (sample_layout lib)))"
    if "AstroCheck fuel lib dt True = Some st" for fuel st
  proof -
    let ?st0 = "\<lparr>run_error = 1, outfile = [observer_line (MakeObserver lib 29 (-81) 10)], sampled = []\<rparr>"
    from that have "AstroCheck_loop fuel lib dt (MakeObserver lib 29 (-81) 10)
        (MakeTime dt 1700 1 1 0 0 0) (MakeTime dt 2200 1 1 0 0 0) ?st0 = Some st"
      by (simp add: AstroCheck_def Let_def)
    from loop_layout [OF this] obtain new k where
      n: "outfile st = [observer_line (MakeObserver lib 29 (-81) 10)] @ new" "length (sampled st) = k"
         "set (map record_head new) \<subseteq> set (sample_layout lib)"
         "run_error st = 0 \<longrightarrow> map record_head new = concat (replicate k (sample_layout lib))"
         "run_error st = 0 \<longrightarrow> 0 < k"
      by auto
    from n(2,5) have "run_error st = 0 \<longrightarrow> sampled st \<noteq> []" by auto
    with n show ?thesis by simp
  qed
  have val: "(\<exists>more. expected_output lib (sampled st) = outfile st @ more) \<and>
      (run_error st = 0 \<longrightarrow> sampled st \<noteq> [] \<and> outfile st = expected_output lib (sampled st))"
    if "AstroCheck fuel lib dt True = Some st" for fuel st
    using AstroCheck_value [OF that] run [OF that] by blast
  have fin: "\<exists>n r. AstroCheck n lib dt True = Some r \<and> run_error r = 0 \<and> sampled r \<noteq> [] \<and>
             outfile r = expected_output lib (sampled r)"
    if "strict_mono (TerrestrialTime dt) \<and> providers_cover_window lib dt"
  proof -
    from that AstroCheck_finishes [of dt lib] obtain n r where
      r: "AstroCheck n lib dt True = Some r" "run_error r = 0" by blast
    with val [OF r(1)] show ?thesis by blast
  qed
  have names: "name = ''GM'' \<or> (\<exists>body \<in> set bodylist. body \<noteq> BODY_EARTH \<and> name = BodyName lib body)"
    if "(CHR ''s'', name) \<in> set (sample_layout lib)" for name
    using that by (auto simp: sample_layout_def body_layout_def split: if_splits)
  have no_o: "(CHR ''o'', name) \<notin> set (sample_layout lib)" for name
    by (auto simp: sample_layout_def body_layout_def split: if_splits)
  from run val fin sample_records_layout [of lib observer time] sample_layout_explicit [of lib]
    names no_o
  show ?thesis by blast
qed

theorem AstroCheck_output_layout_witness:
  "strict_mono (TerrestrialTime (\<lambda>u. 69)) \<and>
   providers_cover_window (example_lib 73048.5) (\<lambda>u. 69) \<and>
   (\<exists>n r. AstroCheck n (example_lib 73048.5) (\<lambda>u. 69) True = Some r \<and> run_error r = 0 \<and>
     sampled r \<noteq> [] \<and>
     outfile r = expected_output (example_lib 73048.5) (sampled r) \<and>
     take 3 (outfile r) =
       [O_rec 29 (- 81) 10,
        V_rec ''Sun'' (- 109572.5 + 69 / 86400) 1 2 3,
        S_rec ''Sun'' (- 109572.5 + 69 / 86400) (- 109572.5) 7 9 11 108 210] \<and>
     map record_head (tl (outfile r)) =
       concat (replicate (length (sampled r))
         [(CHR ''v'', ''Sun''), (CHR ''s'', ''Sun''), (CHR ''v'', ''Mercury''), (CHR ''s'', ''Mercury''),
          (CHR ''v'', ''Venus''), (CHR ''s'', ''Venus''), (CHR ''v'', ''Earth''),
          (CHR ''v'', ''Mars''), (CHR ''s'', ''Mars''), (CHR ''v'', ''Jupiter''), (CHR ''s'', ''Jupiter''),
          (CHR ''v'', ''Saturn''), (CHR ''s'', ''Saturn''), (CHR ''v'', ''Uranus''), (CHR ''s'', ''Uranus''),
          (CHR ''v'', ''Neptune''), (CHR ''s'', ''Neptune''), (CHR ''v'', ''Pluto''), (CHR ''s'', ''Pluto''),
          (CHR ''v'', ''GM''), (CHR ''s'', ''GM'')])) \<and>
   (\<exists>st more. AstroCheck 3 (example_lib (- 109555)) (\<lambda>u. 69) True = Some st \<and>
      run_error st = 1 \<and> length (sampled st) = 3 \<and>
      outfile st = expected_output (example_lib (- 109555)) (take 2 (sampled st)) \<and>
      expected_output (example_lib (- 109555)) (sampled st) = outfile st @ more)"
proof -
  let ?dt = "\<lambda>u::real. 69::real"
  let ?lib = "example_lib 73048.5"
  let ?obs = "MakeObserver ?lib 29 (-81) 10"
  note T = AstroCheck_output_layout
  have sm: "strict_mono (TerrestrialTime ?dt)" by (rule const_dt_strict_mono)
  have cov: "providers_cover_window ?lib ?dt" by (rule example_lib_covers)
  from T [of 0 ?lib ?dt "\<lparr>run_error = 0, outfile = [], sampled = []\<rparr>"] sm cov
  obtain n r where r: "AstroCheck n ?lib ?dt True = Some r" "run_error r = 0" "sampled r \<noteq> []"
      "outfile r = expected_output ?lib (sampled r)"
    by blast
  have obs: "observer_line ?obs = O_rec 29 (- 81) 10"
    by (simp add: observer_line_def example_lib_def)
  from T [of n ?lib ?dt r] r(1,2)
  obtain rest where rest: "outfile r = O_rec 29 (- 81) 10 # rest"
      "map record_head rest = concat (replicate (length (sampled r)) (sample_layout ?lib))"
    unfolding obs by blast
  have lay: "sample_layout ?lib =
         [(CHR ''v'', ''Sun''), (CHR ''s'', ''Sun''), (CHR ''v'', ''Mercury''), (CHR ''s'', ''Mercury''),
          (CHR ''v'', ''Venus''), (CHR ''s'', ''Venus''), (CHR ''v'', ''Earth''),
          (CHR ''v'', ''Mars''), (CHR ''s'', ''Mars''), (CHR ''v'', ''Jupiter''), (CHR ''s'', ''Jupiter''),
          (CHR ''v'', ''Saturn''), (CHR ''s'', ''Saturn''), (CHR ''v'', ''Uranus''), (CHR ''s'', ''Uranus''),
          (CHR ''v'', ''Neptune''), (CHR ''s'', ''Neptune''), (CHR ''v'', ''Pluto''), (CHR ''s'', ''Pluto''),
          (CHR ''v'', ''GM''), (CHR ''s'', ''GM'')]"
    by (simp add: sample_layout_explicit example_lib_def)
  from AstroCheck_sampled [OF r(1)] r(3) obtain k where
    k: "sampled r = map (\<lambda>i. Time_of_ut ?dt (- 109572.5 + real i * (10 + PI / 100))) [0..<k]" "0 < k"
    by auto
  then obtain ts where ts: "sampled r = Time_of_ut ?dt (- 109572.5) # ts"
    by (auto simp: upt_conv_Cons)
  have first: "take 3 (outfile r) =
       [O_rec 29 (- 81) 10,
        V_rec ''Sun'' (- 109572.5 + 69 / 86400) 1 2 3,
        S_rec ''Sun'' (- 109572.5 + 69 / 86400) (- 109572.5) 7 9 11 108 210]"
    unfolding r(4) ts
    by (simp add: expected_output_def sample_records_def body_records_def bodylist_def
        helio_record_def sky_record_def observer_line_def example_lib_def Time_of_ut_def
        TerrestrialTime_def numeral_3_eq_3)
  have full: "\<exists>n r. AstroCheck n ?lib ?dt True = Some r \<and> run_error r = 0 \<and>
     sampled r \<noteq> [] \<and>
     outfile r = expected_output ?lib (sampled r) \<and>
     take 3 (outfile r) =
       [O_rec 29 (- 81) 10,
        V_rec ''Sun'' (- 109572.5 + 69 / 86400) 1 2 3,
        S_rec ''Sun'' (- 109572.5 + 69 / 86400) (- 109572.5) 7 9 11 108 210] \<and>
     map record_head (tl (outfile r)) = concat (replicate (length (sampled r)) (sample_layout ?lib))"
  proof -
    from rest have "map record_head (tl (outfile r)) =
        concat (replicate (length (sampled r)) (sample_layout ?lib))" by simp
    with r first show ?thesis by blast
  qed
  from short_run_output obtain st where
    st: "AstroCheck 3 (example_lib (- 109555)) ?dt True = Some st" "run_error st = 1"
      "length (sampled st) = 3"
      "outfile st = expected_output (example_lib (- 109555)) (take 2 (sampled st))"
    by blast
  from T [of 3 "example_lib (- 109555)" ?dt st] st(1)
  obtain more where "expected_output (example_lib (- 109555)) (sampled st) = outfile st @ more"
    by blast
  with st have short: "\<exists>st more. AstroCheck 3 (example_lib (- 109555)) ?dt True = Some st \<and>
      run_error st = 1 \<and> length (sampled st) = 3 \<and>
      outfile st = expected_output (example_lib (- 109555)) (take 2 (sampled st)) \<and>
      expected_output (example_lib (- 109555)) (sampled st) = outfile st @ more"
    by blast
  from sm cov full short show ?thesis unfolding lay by blast
qed

section \<open>The comparison of the files misses a field\<close>

text \<open>
  Whatever the line, the format of a \<open>v\<close> record assigns at most three numbers,
  while \<open>AstroCheck\<close> writes four (\<open>tt x y z\<close>) on such a line.
\<close>

lemma format_v_reads_three_numbers:
  "sscanf format_v line [] = (n, vals) \<Longrightarrow> length (scanned_data vals) \<le> 3"
  by (auto simp: format_v_def Let_def scan_stop_def split: list.splits option.splits if_splits)

text \<open>
  Claim C3 says that \<open>Diff\<close> compares every numeric field of every record, for a
  \<open>v\<close> record all four of \<open>tt x y z\<close>. The format of \<open>DiffLine\<close> for a \<open>v\<close>
  line has three number conversions only, so the fourth number, \<open>z\<close>, is never read:
  two files whose single \<open>v\<close> line differs by 1 in \<open>z\<close> compare as equal (result 0),
  while the same difference in \<open>y\<close> is reported (result 1).
\<close>

theorem Diff_ignores_vector_z:
  "Diff (Some (''v Sun -109572.4992013888888889 0.0000000000000000 0.0000000000000000 0.0000000000000000'' @ [CHR 0x0A]))
        (Some (''v Sun -109572.4992013888888889 0.0000000000000000 0.0000000000000000 1.0000000000000000'' @ [CHR 0x0A])) = 0 \<and>
   Diff (Some (''v Sun -109572.4992013888888889 0.0000000000000000 0.0000000000000000 0.0000000000000000'' @ [CHR 0x0A]))
        (Some (''v Sun -109572.4992013888888889 0.0000000000000000 1.0000000000000000 0.0000000000000000'' @ [CHR 0x0A])) = 1 \<and>
   sscanf format_v
      (''v Sun -109572.4992013888888889 0.0000000000000000 0.0000000000000000 1.0000000000000000'' @ [CHR 0x0A]) []
     = (4, [Name ''Sun'', Number (- 109572.4992013888888889), Number 0, Number 0])"
  by code_simp

end
